theory Spec2Isabelle
  imports Main "HOL-Library.Word"
begin

section \<open>Values shared by the filter and the NVIDIA adapter\<close>

text \<open>
  The background removal filter of StreamFX
  (\<^verbatim>\<open>source/filters/filter-background-removal.cpp\<close>) drives one provider, the NVIDIA
  green screen effect (\<^verbatim>\<open>source/nvidia/vfx/nvidia-vfx-background-removal.cpp\<close>), whose
  image buffers are textures mapped into the accelerator
  (\<^verbatim>\<open>source/nvidia/cv/nvidia-cv-texture.cpp\<close>).  The host (OBS), the graphics
  subsystem and the accelerator runtime are outside the sources: every call into them is
  recorded as an \<open>event\<close>, and whether the call succeeds is read from an oracle
  \<open>ok :: event \<Rightarrow> bool\<close> that the operations take as their first argument.
  The mutex of the instance is not modelled: a member function runs to its end before
  another one starts, and the task of the thread pool is a function of its own, run
  after the call that pushed it.
\<close>

type_synonym uint32_t = "32 word"

text \<open>
  \<^verbatim>\<open>enum class background_removal_provider\<close> of the filter's header.  Its underlying
  type is \<^verbatim>\<open>int\<close>, and \<^verbatim>\<open>update\<close> casts the integer of the settings to it without a
  check: a provider is any 32-bit integer, in two's complement, and three of them are
  enumerators.
\<close>

type_synonym background_removal_provider = "32 word"

abbreviation (input) INVALID :: background_removal_provider where
  "INVALID \<equiv> - 1"

abbreviation (input) AUTOMATIC :: background_removal_provider where
  "AUTOMATIC \<equiv> 0"

abbreviation (input) NVIDIA_GREEN_SCREEN :: background_removal_provider where
  "NVIDIA_GREEN_SCREEN \<equiv> 1"

definition listed :: "background_removal_provider \<Rightarrow> bool" where
  "listed p = (p = INVALID \<or> p = AUTOMATIC \<or> p = NVIDIA_GREEN_SCREEN)"

text \<open>What a texture holds, as far as the pipeline distinguishes it.\<close>

datatype pixels =
    Blank
  | Upstream nat
  | Segmented pixels
  | Channel_mask pixels pixels

datatype gs_color_format = GS_RGBA_UNORM | GS_A8

record gs_texture =
  tex_width :: uint32_t
  tex_height :: uint32_t
  tex_format :: gs_color_format
  tex_pixels :: pixels

text \<open>
  The five buffers of the adapter, by the member that owns them.  A
  \<^verbatim>\<open>nvidia::cv::image\<close> is opaque here (its implementation is not among the sources);
  a \<^verbatim>\<open>nvidia::cv::texture\<close> is the graphics texture it wraps.
\<close>

datatype role = Tmp | Input | Source | Destination | Output

record cv_image =
  img_width :: uint32_t
  img_height :: uint32_t

datatype vfx_parameter = INPUT_IMAGE_0 | OUTPUT_IMAGE_0

record switch_provider_data_t =
  spd_provider :: background_removal_provider

datatype severity = Log_error | Log_warning | Log_info | Log_debug

datatype origin = Filter_background_removal | Vfx_background_removal | Cv_texture

datatype rendertarget = Input_rt | Masked_rt

datatype event =
    Log severity origin string
  | NvCVImage_UnmapResource role
  | NvCVImage_Dealloc role
  | NvCVImage_InitFromD3D11Texture role
  | NvCVImage_MapResource role
  | NvCVImage_Transfer role role
  | Gs_texture_create role uint32_t uint32_t gs_color_format
  | Image_create role uint32_t uint32_t
  | Image_resize role uint32_t uint32_t
  | Image_destroy role
  | NvVFX_CreateEffect
  | NvVFX_DestroyEffect
  | NvVFX_SetCudaStream
  | NvVFX_SetString
  | NvVFX_SetImage vfx_parameter role
  | NvVFX_SetU32
  | NvVFX_Load
  | NvVFX_Run
  | Gs_copy_texture
  | Skip_video_filter
  | Process_filter_begin
  | Process_filter_end
  | Render rendertarget uint32_t uint32_t
  | Effect_loop_mask
  | Draw_sprite gs_texture uint32_t uint32_t
  | Threadpool_pop switch_provider_data_t
  | Threadpool_push switch_provider_data_t

section \<open>Programs: state, exceptions and the calls they make\<close>

text \<open>
  A C++ member function becomes a function from the object's state to its outcome
  (\<open>Inl\<close> an exception that left the function, \<open>Inr\<close> the value returned), the state it
  leaves behind (also when it throws) and the events it produced, in order.
  \<open>Std_terminate\<close> is not an exception: it is the outcome of a run in which
  \<^verbatim>\<open>std::terminate\<close> ended the process, as it does when an exception leaves a
  destructor.  Nothing runs after it and no handler catches it.
\<close>

datatype exn = Runtime_error string | Std_terminate

type_synonym ('s, 'a) prog = "'s \<Rightarrow> (exn + 'a) \<times> 's \<times> event list"

definition return_p :: "'a \<Rightarrow> ('s, 'a) prog" where
  "return_p x = (\<lambda>s. (Inr x, s, []))"

definition raise :: "exn \<Rightarrow> ('s, 'a) prog" where
  "raise e = (\<lambda>s. (Inl e, s, []))"

definition emit :: "event \<Rightarrow> ('s, unit) prog" where
  "emit ev = (\<lambda>s. (Inr (), s, [ev]))"

definition modify :: "('s \<Rightarrow> 's) \<Rightarrow> ('s, unit) prog" where
  "modify f = (\<lambda>s. (Inr (), f s, []))"

definition bind_p :: "('s, 'a) prog \<Rightarrow> ('a \<Rightarrow> ('s, 'b) prog) \<Rightarrow> ('s, 'b) prog" where
  "bind_p m f = (\<lambda>s.
     case m s of
       (Inl e, s1, t1) \<Rightarrow> (Inl e, s1, t1)
     | (Inr x, s1, t1) \<Rightarrow> (case f x s1 of (r, s2, t2) \<Rightarrow> (r, s2, t1 @ t2)))"

definition then_p :: "('s, 'a) prog \<Rightarrow> ('s, 'b) prog \<Rightarrow> ('s, 'b) prog" where
  "then_p m n = bind_p m (\<lambda>_. n)"

fun seq_all :: "('s, unit) prog list \<Rightarrow> ('s, unit) prog" where
  "seq_all [] = return_p ()"
| "seq_all (m # ms) = then_p m (seq_all ms)"

text \<open>
  \<^verbatim>\<open>try { m } catch (...) { h }\<close>: the handler starts in the state the throw left.  Every
  exception of the sources is a \<^verbatim>\<open>std::runtime_error\<close>, so a handler for
  \<^verbatim>\<open>std::exception const&\<close> catches the same.
\<close>

definition try_catch :: "('s, 'a) prog \<Rightarrow> (exn \<Rightarrow> ('s, 'a) prog) \<Rightarrow> ('s, 'a) prog" where
  "try_catch m h = (\<lambda>s.
     case m s of
       (Inl e, s1, t1) \<Rightarrow>
         (if e = Std_terminate then (Inl e, s1, t1)
          else (case h e s1 of (r, s2, t2) \<Rightarrow> (r, s2, t1 @ t2)))
     | (Inr x, s1, t1) \<Rightarrow> (Inr x, s1, t1))"

text \<open>
  A function that is \<^verbatim>\<open>noexcept\<close>, as every destructor is: an exception that would
  leave it ends the process.
\<close>

definition noexcept_p :: "('s, 'a) prog \<Rightarrow> ('s, 'a) prog" where
  "noexcept_p m = (\<lambda>s.
     case m s of
       (Inl e, s1, t1) \<Rightarrow> (Inl Std_terminate, s1, t1)
     | (Inr x, s1, t1) \<Rightarrow> (Inr x, s1, t1))"

text \<open>
  \<^verbatim>\<open>cstring(provider)\<close>: the name of an enumerator (the translation of a key, which
  is the host's; the key stands for it), and an exception for any other value.
\<close>

definition cstring :: "background_removal_provider \<Rightarrow> exn + string" where
  "cstring p =
     (if p = INVALID then Inr ''N/A''
      else if p = AUTOMATIC then Inr ''S_STATE_AUTOMATIC''
      else if p = NVIDIA_GREEN_SCREEN then Inr ''NVIDIA.GreenScreen''
      else Inl (Runtime_error ''Missing Conversion Entry''))"

fun first_throw :: "(exn + 'a) list \<Rightarrow> exn option" where
  "first_throw [] = None"
| "first_throw (Inl e # xs) = Some e"
| "first_throw (Inr x # xs) = first_throw xs"

text \<open>
  A log line whose arguments are the names of the providers \<open>ps\<close>: the arguments are
  evaluated before the line is written, and a \<^verbatim>\<open>cstring\<close> that throws leaves no line.
\<close>

definition log_cstring ::
  "severity \<Rightarrow> origin \<Rightarrow> string \<Rightarrow> background_removal_provider list \<Rightarrow> ('s, unit) prog" where
  "log_cstring sev org msg ps =
     (case first_throw (map cstring ps) of
        Some e \<Rightarrow> raise e
      | None \<Rightarrow> emit (Log sev org msg))"

text \<open>
  The pattern of every accelerator call in the sources:
  \<^verbatim>\<open>if (auto res = call(...); res != SUCCESS) { D_LOG_ERROR(msg); throw std::runtime_error(what); }\<close>
\<close>

definition nvcall :: "(event \<Rightarrow> bool) \<Rightarrow> origin \<Rightarrow> event \<Rightarrow> string \<Rightarrow> string \<Rightarrow> ('s, unit) prog" where
  "nvcall ok org c msg what = (\<lambda>s.
     if ok c then (Inr (), s, [c])
     else (Inl (Runtime_error what), s, [c, Log Log_error org msg]))"

text \<open>
  \<^verbatim>\<open>if (x) { x->resize(...) } else { x = std::make_shared<T>(...) }\<close> on a member \<open>x\<close>
  read by \<open>rd\<close> and written by \<open>wr\<close>.  An object that throws while it is resized
  stays where it is, in the state the throw left; a constructor that throws assigns nothing.
\<close>

definition resize_or_create ::
  "('s \<Rightarrow> 'b option) \<Rightarrow> ('b option \<Rightarrow> 's \<Rightarrow> 's) \<Rightarrow> ('b, unit) prog \<Rightarrow> ('s, 'b) prog \<Rightarrow> ('s, unit) prog" where
  "resize_or_create rd wr rs mk = (\<lambda>s.
     case rd s of
       Some b \<Rightarrow> (case rs b of (r, b1, t) \<Rightarrow> (r, wr (Some b1) s, t))
     | None \<Rightarrow>
         (case mk s of
            (Inl e, s1, t) \<Rightarrow> (Inl e, s1, t)
          | (Inr b1, s1, t) \<Rightarrow> (Inr (), wr (Some b1) s1, t)))"

section \<open>\<^verbatim>\<open>nvidia::cv::texture\<close>\<close>

type_synonym cv_texture = gs_texture

text \<open>\<^verbatim>\<open>texture::free\<close>: unmap, then deallocate.\<close>

definition texture_free :: "(event \<Rightarrow> bool) \<Rightarrow> role \<Rightarrow> ('s, unit) prog" where
  "texture_free ok r = seq_all
     [nvcall ok Cv_texture (NvCVImage_UnmapResource r)
        ''Object failed NvCVImage_UnmapResource call'' ''NvCVImage_UnmapResource'',
      nvcall ok Cv_texture (NvCVImage_Dealloc r)
        ''Object failed NvCVImage_Dealloc call'' ''NvCVImage_Dealloc'']"

text \<open>
  The destructor \<^verbatim>\<open>texture::~texture\<close> calls \<^verbatim>\<open>free()\<close>, whose exception cannot
  leave it.
\<close>

definition texture_delete :: "(event \<Rightarrow> bool) \<Rightarrow> role \<Rightarrow> ('s, unit) prog" where
  "texture_delete ok r = noexcept_p (texture_free ok r)"

text \<open>\<^verbatim>\<open>texture::alloc\<close>: wrap the graphics texture, then map it.\<close>

definition texture_alloc :: "(event \<Rightarrow> bool) \<Rightarrow> role \<Rightarrow> ('s, unit) prog" where
  "texture_alloc ok r = seq_all
     [nvcall ok Cv_texture (NvCVImage_InitFromD3D11Texture r)
        ''Object failed NvCVImage_InitFromD3D11Texture call'' ''NvCVImage_InitFromD3D11Texture'',
      nvcall ok Cv_texture (NvCVImage_MapResource r)
        ''Object failed NvCVImage_MapResource call'' ''NvCVImage_MapResource'']"

text \<open>
  \<^verbatim>\<open>std::make_shared<gs::texture>(width, height, format, ...)\<close>.  The constructor is not
  among the sources; it is a call that the oracle may fail.
\<close>

definition gs_texture_new ::
  "(event \<Rightarrow> bool) \<Rightarrow> role \<Rightarrow> uint32_t \<Rightarrow> uint32_t \<Rightarrow> gs_color_format \<Rightarrow> ('s, gs_texture) prog" where
  "gs_texture_new ok r w h fmt = (\<lambda>s.
     if ok (Gs_texture_create r w h fmt)
     then (Inr \<lparr>tex_width = w, tex_height = h, tex_format = fmt, tex_pixels = Blank\<rparr>, s,
           [Gs_texture_create r w h fmt])
     else (Inl (Runtime_error ''gs::texture''), s, [Gs_texture_create r w h fmt]))"

text \<open>The constructor \<^verbatim>\<open>texture::texture(width, height, pix_fmt)\<close>.\<close>

definition texture_new ::
  "(event \<Rightarrow> bool) \<Rightarrow> role \<Rightarrow> uint32_t \<Rightarrow> uint32_t \<Rightarrow> gs_color_format \<Rightarrow> ('s, cv_texture) prog" where
  "texture_new ok r w h fmt =
     bind_p (gs_texture_new ok r w h fmt) (\<lambda>t. then_p (texture_alloc ok r) (return_p t))"

text \<open>\<^verbatim>\<open>texture::resize\<close>, on the texture object itself.\<close>

definition texture_resize :: "(event \<Rightarrow> bool) \<Rightarrow> role \<Rightarrow> uint32_t \<Rightarrow> uint32_t \<Rightarrow> (cv_texture, unit) prog" where
  "texture_resize ok r w h = seq_all
     [emit (Log Log_debug Cv_texture ''Resizing object...''),
      texture_free ok r,
      (\<lambda>t. case gs_texture_new ok r w h (tex_format t) t of
              (Inl e, _, evs) \<Rightarrow> (Inl e, t, evs)
            | (Inr t1, _, evs) \<Rightarrow> (Inr (), t1, evs)),
      texture_alloc ok r]"

section \<open>\<^verbatim>\<open>nvidia::cv::image\<close>\<close>

text \<open>
  Modelled from the spec: the constructor, \<^verbatim>\<open>resize\<close> and the destructor of
  \<^verbatim>\<open>nvidia::cv::image\<close> are missing from the sources.  The spec's resource pool
  releases a role's old buffer and allocates a new one of the requested size; each of the
  three operations is kept as one call into the accelerator, which may fail.
\<close>

definition image_new :: "(event \<Rightarrow> bool) \<Rightarrow> role \<Rightarrow> uint32_t \<Rightarrow> uint32_t \<Rightarrow> ('s, cv_image) prog" where
  "image_new ok r w h = (\<lambda>s.
     if ok (Image_create r w h)
     then (Inr \<lparr>img_width = w, img_height = h\<rparr>, s, [Image_create r w h])
     else (Inl (Runtime_error ''nvidia::cv::image''), s, [Image_create r w h]))"

definition image_resize :: "(event \<Rightarrow> bool) \<Rightarrow> role \<Rightarrow> uint32_t \<Rightarrow> uint32_t \<Rightarrow> (cv_image, unit) prog" where
  "image_resize ok r w h = (\<lambda>i.
     if ok (Image_resize r w h)
     then (Inr (), \<lparr>img_width = w, img_height = h\<rparr>, [Image_resize r w h])
     else (Inl (Runtime_error ''nvidia::cv::image::resize''), i, [Image_resize r w h]))"

section \<open>\<^verbatim>\<open>nvidia::vfx::background_removal\<close>, the adapter\<close>

record background_removal =
  tmp :: "cv_image option"
  fx_input :: "cv_texture option"
  source :: "cv_image option"
  destination :: "cv_image option"
  fx_output :: "cv_texture option"
  fx_dirty :: bool

text \<open>
  \<^verbatim>\<open>background_removal::size(size, input_size, output_size)\<close>: the two reference
  parameters are returned, input first.
\<close>

definition size_fx ::
  "uint32_t \<times> uint32_t \<Rightarrow> uint32_t \<times> uint32_t \<Rightarrow> uint32_t \<times> uint32_t
     \<Rightarrow> (uint32_t \<times> uint32_t) \<times> (uint32_t \<times> uint32_t)" where
  "size_fx sz input_size output_size = (input_size, (fst input_size, snd input_size))"

text \<open>The two tests of \<^verbatim>\<open>resize\<close>, with C++'s left-to-right evaluation of \<open>||\<close>.\<close>

definition input_size_changed :: "uint32_t \<Rightarrow> uint32_t \<Rightarrow> background_removal \<Rightarrow> bool" where
  "input_size_changed w h a =
     (case fx_input a of
        None \<Rightarrow> True
      | Some t \<Rightarrow> source a = None \<or> w \<noteq> tex_width t \<or> h \<noteq> tex_height t)"

definition output_size_changed :: "uint32_t \<Rightarrow> uint32_t \<Rightarrow> background_removal \<Rightarrow> bool" where
  "output_size_changed w h a =
     (destination a = None \<or>
      (case fx_output a of
         None \<Rightarrow> True
       | Some t \<Rightarrow> w \<noteq> tex_width t \<or> h \<noteq> tex_height t))"

definition resize_tmp :: "(event \<Rightarrow> bool) \<Rightarrow> uint32_t \<Rightarrow> uint32_t \<Rightarrow> (background_removal, unit) prog" where
  "resize_tmp ok w h = (\<lambda>a.
     if tmp a = None
     then bind_p (image_new ok Tmp w h) (\<lambda>i. modify (\<lambda>a. a\<lparr>tmp := Some i\<rparr>)) a
     else return_p () a)"

definition resize_input :: "(event \<Rightarrow> bool) \<Rightarrow> uint32_t \<Rightarrow> uint32_t \<Rightarrow> (background_removal, unit) prog" where
  "resize_input ok w h = (\<lambda>a.
     if input_size_changed w h a
     then seq_all
       [resize_or_create fx_input (\<lambda>v a. a\<lparr>fx_input := v\<rparr>)
          (texture_resize ok Input w h) (texture_new ok Input w h GS_RGBA_UNORM),
        resize_or_create source (\<lambda>v a. a\<lparr>source := v\<rparr>)
          (image_resize ok Source w h) (image_new ok Source w h),
        nvcall ok Vfx_background_removal (NvVFX_SetImage INPUT_IMAGE_0 Source)
          ''Failed to set input image due to error: %s'' ''SetImage failed.'',
        nvcall ok Vfx_background_removal NvVFX_SetU32
          ''Failed to set mode due to error: %s'' ''SetU32 failed.'',
        modify (\<lambda>a. a\<lparr>fx_dirty := True\<rparr>)] a
     else return_p () a)"

definition resize_output :: "(event \<Rightarrow> bool) \<Rightarrow> uint32_t \<Rightarrow> uint32_t \<Rightarrow> (background_removal, unit) prog" where
  "resize_output ok w h = (\<lambda>a.
     if output_size_changed w h a
     then seq_all
       [resize_or_create destination (\<lambda>v a. a\<lparr>destination := v\<rparr>)
          (image_resize ok Destination w h) (image_new ok Destination w h),
        resize_or_create fx_output (\<lambda>v a. a\<lparr>fx_output := v\<rparr>)
          (texture_resize ok Output w h) (texture_new ok Output w h GS_A8),
        nvcall ok Vfx_background_removal (NvVFX_SetImage OUTPUT_IMAGE_0 Destination)
          ''Failed to set output image due to error: %s'' ''SetImage failed.'',
        modify (\<lambda>a. a\<lparr>fx_dirty := True\<rparr>)] a
     else return_p () a)"

text \<open>\<^verbatim>\<open>background_removal::resize(width, height)\<close>.\<close>

definition resize :: "(event \<Rightarrow> bool) \<Rightarrow> uint32_t \<Rightarrow> uint32_t \<Rightarrow> (background_removal, unit) prog" where
  "resize ok w h = seq_all [resize_tmp ok w h, resize_input ok w h, resize_output ok w h]"

text \<open>\<^verbatim>\<open>background_removal::load()\<close>.\<close>

definition load :: "(event \<Rightarrow> bool) \<Rightarrow> (background_removal, unit) prog" where
  "load ok = seq_all
     [nvcall ok Vfx_background_removal NvVFX_SetCudaStream
        ''Failed to set CUDA stream due to error: %s'' ''SetCudaStream failed.'',
      nvcall ok Vfx_background_removal NvVFX_Load
        ''Failed to initialize effect due to error: %s'' ''Load failed.'',
      modify (\<lambda>a. a\<lparr>fx_dirty := False\<rparr>)]"

text \<open>
  \<^verbatim>\<open>background_removal::process(in)\<close>.  The result is the texture of the output
  buffer, which now holds the effect's output for the pixels of \<open>inp\<close>.
\<close>

definition process :: "(event \<Rightarrow> bool) \<Rightarrow> gs_texture \<Rightarrow> (background_removal, gs_texture option) prog" where
  "process ok inp = then_p
     (seq_all
        [resize ok (tex_width inp) (tex_height inp),
         (\<lambda>a. if fx_dirty a then load ok a else return_p () a),
         emit Gs_copy_texture,
         modify (\<lambda>a. a\<lparr>fx_input := map_option (\<lambda>t. t\<lparr>tex_pixels := tex_pixels inp\<rparr>) (fx_input a)\<rparr>),
         nvcall ok Vfx_background_removal (NvCVImage_Transfer Input Source)
           ''Failed to transfer input to processing source due to error: %s'' ''Transfer failed.'',
         nvcall ok Vfx_background_removal NvVFX_Run
           ''Failed to process due to error: %s'' ''Run failed.'',
         nvcall ok Vfx_background_removal (NvCVImage_Transfer Destination Output)
           ''Failed to transfer processing result to output due to error: %s'' ''Transfer failed.'',
         modify (\<lambda>a. a\<lparr>fx_output :=
           map_option (\<lambda>t. t\<lparr>tex_pixels := Segmented (tex_pixels inp)\<rparr>) (fx_output a)\<rparr>)])
     (\<lambda>a. (Inr (fx_output a), a, []))"

text \<open>The steps of \<^verbatim>\<open>process\<close> that follow its resize, on their own.\<close>

definition process_steps :: "(event \<Rightarrow> bool) \<Rightarrow> gs_texture \<Rightarrow> (background_removal, unit) prog" where
  "process_steps ok inp = seq_all
        [(\<lambda>a. if fx_dirty a then load ok a else return_p () a),
         emit Gs_copy_texture,
         modify (\<lambda>a. a\<lparr>fx_input := map_option (\<lambda>t. t\<lparr>tex_pixels := tex_pixels inp\<rparr>) (fx_input a)\<rparr>),
         nvcall ok Vfx_background_removal (NvCVImage_Transfer Input Source)
           ''Failed to transfer input to processing source due to error: %s'' ''Transfer failed.'',
         nvcall ok Vfx_background_removal NvVFX_Run
           ''Failed to process due to error: %s'' ''Run failed.'',
         nvcall ok Vfx_background_removal (NvCVImage_Transfer Destination Output)
           ''Failed to transfer processing result to output due to error: %s'' ''Transfer failed.'',
         modify (\<lambda>a. a\<lparr>fx_output :=
           map_option (\<lambda>t. t\<lparr>tex_pixels := Segmented (tex_pixels inp)\<rparr>) (fx_output a)\<rparr>)]"

text \<open>
  The body of the constructor: create and configure the effect, then
  \<^verbatim>\<open>resize(160, 90)\<close> and \<^verbatim>\<open>load()\<close>, starting from the member initialisers.
\<close>

definition construct_background_removal ::
  "(event \<Rightarrow> bool) \<Rightarrow> (exn + unit) \<times> background_removal \<times> event list" where
  "construct_background_removal ok = seq_all
     [nvcall ok Vfx_background_removal NvVFX_CreateEffect
        ''Failed to create effect due to error: %s'' ''CreateEffect failed.'',
      nvcall ok Vfx_background_removal NvVFX_SetCudaStream
        ''Failed to set CUDA stream due to error: %s'' ''SetCudaStream failed.'',
      nvcall ok Vfx_background_removal NvVFX_SetString
        ''Failed to set model directory due to error: %s'' ''SetString failed.'',
      resize ok 160 90,
      load ok]
     \<lparr>tmp = None, fx_input = None, source = None, destination = None, fx_output = None,
      fx_dirty = True\<rparr>"

text \<open>
  When the body of the constructor throws, the members built so far are destroyed in the
  reverse of their declaration, and the exception goes on to the caller.  The header that
  declares the members is not among the sources: the order is taken from the
  constructor's initialiser list (\<^verbatim>\<open>_input, _source, _destination, _output, _tmp\<close>), and
  the effect handle, which that list does not name, is taken to be declared before them,
  so that it is released last.  The handle exists once \<^verbatim>\<open>NvVFX_CreateEffect\<close> has
  succeeded.  A texture's destructor that throws ends the process.
\<close>

definition unwind_background_removal ::
  "(event \<Rightarrow> bool) \<Rightarrow> background_removal \<Rightarrow> ('s, unit) prog" where
  "unwind_background_removal ok a = seq_all
     [(case tmp a of None \<Rightarrow> return_p () | Some _ \<Rightarrow> emit (Image_destroy Tmp)),
      (case fx_output a of None \<Rightarrow> return_p () | Some _ \<Rightarrow> texture_delete ok Output),
      (case destination a of None \<Rightarrow> return_p () | Some _ \<Rightarrow> emit (Image_destroy Destination)),
      (case source a of None \<Rightarrow> return_p () | Some _ \<Rightarrow> emit (Image_destroy Source)),
      (case fx_input a of None \<Rightarrow> return_p () | Some _ \<Rightarrow> texture_delete ok Input),
      (if ok NvVFX_CreateEffect then emit NvVFX_DestroyEffect else return_p ())]"

text \<open>
  \<^verbatim>\<open>new background_removal()\<close>: the body of the constructor and, when it throws, the
  unwinding.  The state returned with an exception is that of the members when the body
  threw; no object exists then.
\<close>

definition new_background_removal ::
  "(event \<Rightarrow> bool) \<Rightarrow> (exn + unit) \<times> background_removal \<times> event list" where
  "new_background_removal ok =
     (case construct_background_removal ok of
        (Inr u, a, t) \<Rightarrow> (Inr u, a, t)
      | (Inl e, a, t) \<Rightarrow>
          (case unwind_background_removal ok a a of
             (Inl e1, _, t1) \<Rightarrow> (Inl e1, a, t @ t1)
           | (Inr _, _, t1) \<Rightarrow> (Inl e, a, t @ t1)))"

text \<open>
  The destructor resets the effect handle and the five buffers in the order written there.
  A texture's destructor calls \<^verbatim>\<open>texture::free\<close>, which throws when the accelerator
  refuses; the exception cannot leave the destructor, and the process ends there: the
  buffers that follow are not released and no handler of a caller runs.
\<close>

definition delete_background_removal :: "(event \<Rightarrow> bool) \<Rightarrow> background_removal \<Rightarrow> ('s, unit) prog" where
  "delete_background_removal ok a = seq_all
     [emit NvVFX_DestroyEffect,
      (case fx_input a of None \<Rightarrow> return_p () | Some _ \<Rightarrow> texture_delete ok Input),
      (case source a of None \<Rightarrow> return_p () | Some _ \<Rightarrow> emit (Image_destroy Source)),
      (case destination a of None \<Rightarrow> return_p () | Some _ \<Rightarrow> emit (Image_destroy Destination)),
      (case fx_output a of None \<Rightarrow> return_p () | Some _ \<Rightarrow> texture_delete ok Output),
      (case tmp a of None \<Rightarrow> return_p () | Some _ \<Rightarrow> emit (Image_destroy Tmp))]"

section \<open>\<^verbatim>\<open>filter::background_removal::background_removal_instance\<close>, the pipeline\<close>

record background_removal_instance =
  in_size :: "uint32_t \<times> uint32_t"
  out_size :: "uint32_t \<times> uint32_t"
  provider_ready :: bool
  provider :: background_removal_provider
  provider_task :: "switch_provider_data_t option"
  input :: gs_texture
  mask_tex :: "gs_texture option"
  masked :: gs_texture
  dirty :: bool
  nvidia_fx :: "background_removal option"

text \<open>
  What the host answers during one callback: the filter's target and parent (\<open>None\<close> for
  a null pointer), \<^verbatim>\<open>obs_source_get_base_width(target)\<close> and
  \<^verbatim>\<open>obs_source_get_base_height(target)\<close>, the result of
  \<^verbatim>\<open>obs_source_process_filter_begin\<close>, and the frame the upstream source draws.
\<close>

record host =
  filter_target :: "nat option"
  filter_parent :: "nat option"
  base_width :: uint32_t
  base_height :: uint32_t
  filter_begin :: bool
  upstream :: nat

record background_removal_factory =
  nvidia_available :: bool

definition provider_priority :: "background_removal_provider list" where
  "provider_priority = [NVIDIA_GREEN_SCREEN]"

definition is_provider_available ::
  "background_removal_factory \<Rightarrow> background_removal_provider \<Rightarrow> bool" where
  "is_provider_available fac p =
     (if p = NVIDIA_GREEN_SCREEN then nvidia_available fac else False)"

text \<open>The member initialisers of the instance's constructor, before \<^verbatim>\<open>load(data)\<close>.\<close>

definition rt_1x1 :: gs_texture where
  "rt_1x1 = \<lparr>tex_width = 1, tex_height = 1, tex_format = GS_RGBA_UNORM, tex_pixels = Blank\<rparr>"

definition new_instance :: background_removal_instance where
  "new_instance =
     \<lparr>in_size = (1, 1), out_size = (1, 1), provider_ready = False, provider = INVALID,
      provider_task = None, input = rt_1x1, mask_tex = Some rt_1x1, masked = rt_1x1,
      dirty = False, nvidia_fx = None\<rparr>"

subsection \<open>The NVIDIA provider\<close>

text \<open>A \<^verbatim>\<open>shared_ptr\<close> that gives up the adapter it held runs the adapter's destructor.\<close>

fun release :: "(event \<Rightarrow> bool) \<Rightarrow> background_removal option \<Rightarrow> ('s, unit) prog" where
  "release ok None = return_p ()"
| "release ok (Some a) = delete_background_removal ok a"

text \<open>
  \<^verbatim>\<open>nvidia_load\<close>: \<^verbatim>\<open>_nvidia_fx = std::make_shared<background_removal>()\<close>.  When the
  constructor throws nothing is assigned; when it returns, the new adapter is assigned
  and the one held before is released.
\<close>

definition nvidia_load :: "(event \<Rightarrow> bool) \<Rightarrow> (background_removal_instance, unit) prog" where
  "nvidia_load ok = (\<lambda>s.
     case new_background_removal ok of
       (Inl e, _, t) \<Rightarrow> (Inl e, s, t)
     | (Inr _, a, t) \<Rightarrow>
         (case release ok (nvidia_fx s) (s\<lparr>nvidia_fx := Some a\<rparr>) of
            (r, s1, t1) \<Rightarrow> (r, s1, t @ t1)))"

text \<open>\<^verbatim>\<open>nvidia_unload\<close>: \<^verbatim>\<open>_nvidia_fx.reset()\<close>.\<close>

definition nvidia_unload :: "(event \<Rightarrow> bool) \<Rightarrow> (background_removal_instance, unit) prog" where
  "nvidia_unload ok = (\<lambda>s. release ok (nvidia_fx s) (s\<lparr>nvidia_fx := None\<rparr>))"

definition nvidia_size :: "background_removal_instance \<Rightarrow> background_removal_instance" where
  "nvidia_size s =
     (case nvidia_fx s of
        None \<Rightarrow> s
      | Some a \<Rightarrow>
          (case size_fx (in_size s) (in_size s) (out_size s) of
             (i, out) \<Rightarrow> s\<lparr>in_size := i, out_size := out\<rparr>))"

definition nvidia_process :: "(event \<Rightarrow> bool) \<Rightarrow> (background_removal_instance, unit) prog" where
  "nvidia_process ok = (\<lambda>s.
     case nvidia_fx s of
       None \<Rightarrow> (Inr (), s\<lparr>mask_tex := Some (input s)\<rparr>, [])
     | Some a \<Rightarrow>
         (case process ok (input s) a of
            (Inl e, a1, t) \<Rightarrow> (Inl e, s\<lparr>nvidia_fx := Some a1\<rparr>, t)
          | (Inr m, a1, t) \<Rightarrow> (Inr (), s\<lparr>nvidia_fx := Some a1, mask_tex := m\<rparr>, t)))"

subsection \<open>Switching the provider\<close>

text \<open>
  \<^verbatim>\<open>switch_provider\<close>.  The thread pool is outside the sources: evicting the task the
  instance holds and pushing a new one are events, and the handle kept in
  \<^verbatim>\<open>_provider_task\<close> is the data bound to the task.
\<close>

definition switch_provider ::
  "background_removal_provider \<Rightarrow> (background_removal_instance, unit) prog" where
  "switch_provider p = (\<lambda>s.
     if p = provider s then return_p () s
     else seq_all
       [log_cstring Log_info Filter_background_removal
          ''Instance '%s' is switching provider from '%s' to '%s'.'' [provider s, p],
        (case provider_task s of None \<Rightarrow> return_p () | Some t \<Rightarrow> emit (Threadpool_pop t)),
        modify (\<lambda>s. s\<lparr>provider := p\<rparr>),
        emit (Threadpool_push \<lparr>spd_provider = provider s\<rparr>),
        modify (\<lambda>s1. s1\<lparr>provider_task := Some \<lparr>spd_provider = provider s\<rparr>\<rparr>)] s)"

text \<open>
  \<^verbatim>\<open>task_switch_provider\<close>, in its three parts: the store to \<^verbatim>\<open>_provider_ready\<close>
  made before the lock is taken, the body of the \<^verbatim>\<open>try\<close> block, and the handler.
\<close>

definition task_mark_not_ready :: "(background_removal_instance, unit) prog" where
  "task_mark_not_ready = modify (\<lambda>s. s\<lparr>provider_ready := False\<rparr>)"

text \<open>\<^verbatim>\<open>// 3. Unload the previous provider.\<close>\<close>

definition task_unload ::
  "(event \<Rightarrow> bool) \<Rightarrow> switch_provider_data_t \<Rightarrow> (background_removal_instance, unit) prog" where
  "task_unload ok spd =
     (if spd_provider spd = NVIDIA_GREEN_SCREEN then nvidia_unload ok else return_p ())"

text \<open>\<^verbatim>\<open>// 4. Load the new provider.\<close>\<close>

definition task_load :: "(event \<Rightarrow> bool) \<Rightarrow> (background_removal_instance, unit) prog" where
  "task_load ok = (\<lambda>s.
     if provider s = NVIDIA_GREEN_SCREEN then nvidia_load ok s else return_p () s)"

definition task_try_block ::
  "(event \<Rightarrow> bool) \<Rightarrow> switch_provider_data_t \<Rightarrow> (background_removal_instance, unit) prog" where
  "task_try_block ok spd = seq_all
     [task_unload ok spd,
      task_load ok,
      (\<lambda>s. log_cstring Log_info Filter_background_removal
        ''Instance '%s' switched provider from '%s' to '%s'.''
        [spd_provider spd, provider s] s),
      modify (\<lambda>s. s\<lparr>provider_ready := True\<rparr>)]"

definition task_switch_provider ::
  "(event \<Rightarrow> bool) \<Rightarrow> switch_provider_data_t \<Rightarrow> (background_removal_instance, unit) prog" where
  "task_switch_provider ok spd = then_p task_mark_not_ready
     (try_catch (task_try_block ok spd)
        (\<lambda>ex. emit (Log Log_error Filter_background_removal
           ''Instance '%s' failed switching provider with error: %s'')))"

subsection \<open>Configuration\<close>

text \<open>
  The loop of \<^verbatim>\<open>update\<close> over \<^verbatim>\<open>provider_priority\<close>: the first available provider
  replaces the selected one, which stays when none is available.
\<close>

fun first_available ::
  "background_removal_factory \<Rightarrow> background_removal_provider list \<Rightarrow> background_removal_provider
     \<Rightarrow> background_removal_provider" where
  "first_available fac [] p = p"
| "first_available fac (v # vs) p =
     (if is_provider_available fac v then v else first_available fac vs p)"

text \<open>
  \<^verbatim>\<open>update(data)\<close>; \<open>selected\<close> is the value of the key \<^verbatim>\<open>Provider\<close> in the settings.
  The block guarded by \<^verbatim>\<open>_provider_ready\<close> at its end has no statement left.
\<close>

definition update ::
  "background_removal_factory \<Rightarrow> background_removal_provider \<Rightarrow> (background_removal_instance, unit) prog" where
  "update fac selected = (\<lambda>s.
     let p = (if selected = AUTOMATIC then first_available fac provider_priority selected
              else selected)
     in if p \<noteq> provider s then switch_provider p s else return_p () s)"

subsection \<open>Tick and render\<close>

definition video_tick :: "host \<Rightarrow> background_removal_instance \<Rightarrow> background_removal_instance" where
  "video_tick h s =
     (let s1 = s\<lparr>in_size := (base_width h, base_height h)\<rparr>;
          s2 = s1\<lparr>out_size := in_size s1\<rparr>;
          s3 = (if filter_target h \<noteq> None \<and> provider_ready s2
                then (if provider s2 = NVIDIA_GREEN_SCREEN then nvidia_size s2 else s2)
                else s2)
      in s3\<lparr>dirty := True\<rparr>)"

text \<open>
  Modelled from the spec: \<^verbatim>\<open>gs::rendertarget\<close> is missing from the sources.
  Rendering into a target gives its texture the requested size (a texture of another size
  is replaced by a blank one); the call may fail.
\<close>

definition rt_begin :: "uint32_t \<Rightarrow> uint32_t \<Rightarrow> gs_texture \<Rightarrow> gs_texture" where
  "rt_begin w h t =
     (if tex_width t = w \<and> tex_height t = h then t
      else \<lparr>tex_width = w, tex_height = h, tex_format = tex_format t, tex_pixels = Blank\<rparr>)"

definition host_call :: "(event \<Rightarrow> bool) \<Rightarrow> event \<Rightarrow> string \<Rightarrow> ('s, unit) prog" where
  "host_call ok c what = (\<lambda>s.
     if ok c then (Inr (), s, [c]) else (Inl (Runtime_error what), s, [c]))"

text \<open>
  \<^verbatim>\<open>target = target ? target : parent\<close>: the target that the skip test of
  \<^verbatim>\<open>video_render\<close> looks at.
\<close>

definition render_target :: "host \<Rightarrow> nat option" where
  "render_target h = (case filter_target h of Some t \<Rightarrow> Some t | None \<Rightarrow> filter_parent h)"

text \<open>
  The capture block.  It returns whether the frame was captured; when the host refuses
  the filter has been skipped.
\<close>

definition capture :: "(event \<Rightarrow> bool) \<Rightarrow> host \<Rightarrow> (background_removal_instance, bool) prog" where
  "capture ok h = then_p (emit Process_filter_begin)
     (if filter_begin h
      then then_p
        (seq_all
           [(\<lambda>s. host_call ok (Render Input_rt (fst (in_size s)) (snd (in_size s))) ''gs::rendertarget'' s),
            modify (\<lambda>s. s\<lparr>input := (rt_begin (fst (in_size s)) (snd (in_size s)) (input s))
                                      \<lparr>tex_pixels := Blank\<rparr>\<rparr>),
            emit Process_filter_end,
            modify (\<lambda>s. s\<lparr>input := (input s)\<lparr>tex_pixels := Upstream (upstream h)\<rparr>\<rparr>)])
        (return_p True)
      else then_p (emit Skip_video_filter) (return_p False))"

text \<open>The \<^verbatim>\<open>switch (_provider)\<close> inside the first \<^verbatim>\<open>try\<close> block.\<close>

definition provider_process :: "(event \<Rightarrow> bool) \<Rightarrow> (background_removal_instance, unit) prog" where
  "provider_process ok = (\<lambda>s.
     if provider s = NVIDIA_GREEN_SCREEN then nvidia_process ok s
     else modify (\<lambda>s. s\<lparr>mask_tex := None\<rparr>) s)"

text \<open>The second \<^verbatim>\<open>try\<close> block: the input masked by \<open>m\<close> is drawn into \<^verbatim>\<open>_masked\<close>.\<close>

definition mask_pass :: "(event \<Rightarrow> bool) \<Rightarrow> host \<Rightarrow> gs_texture \<Rightarrow> (background_removal_instance, unit) prog" where
  "mask_pass ok h m = seq_all
     [host_call ok (Render Masked_rt (base_width h) (base_height h)) ''gs::rendertarget'',
      modify (\<lambda>s. s\<lparr>masked := rt_begin (base_width h) (base_height h) (masked s)\<rparr>),
      host_call ok Effect_loop_mask ''gs::effect'',
      modify (\<lambda>s. s\<lparr>masked := (masked s)\<lparr>tex_pixels :=
        Channel_mask (tex_pixels (input s)) (tex_pixels m)\<rparr>\<rparr>)]"

text \<open>
  The block under \<^verbatim>\<open>if (_dirty)\<close>.  It returns \<open>True\<close> when control reaches the end of
  the block and \<open>False\<close> when the function has returned from inside it.
\<close>

definition recompute :: "(event \<Rightarrow> bool) \<Rightarrow> host \<Rightarrow> (background_removal_instance, bool) prog" where
  "recompute ok h =
     bind_p (capture ok h) (\<lambda>captured.
       if \<not> captured then return_p False
       else bind_p
         (try_catch (then_p (provider_process ok) (return_p True))
            (\<lambda>ex. then_p (emit Skip_video_filter) (return_p False)))
         (\<lambda>processed.
            if \<not> processed then return_p False
            else (\<lambda>s.
              case mask_tex s of
                None \<Rightarrow>
                  then_p
                    (seq_all
                       [log_cstring Log_error Filter_background_removal
                          ''Provider '%s' did not return a result.'' [provider s],
                        emit Skip_video_filter])
                    (return_p False) s
              | Some m \<Rightarrow>
                  bind_p
                    (try_catch (then_p (mask_pass ok h m) (return_p True))
                       (\<lambda>ex. then_p (emit Skip_video_filter) (return_p False)))
                    (\<lambda>drawn.
                       if drawn then then_p (modify (\<lambda>s. s\<lparr>dirty := False\<rparr>)) (return_p True)
                       else return_p False) s)))"

text \<open>The last block: the cached texture is drawn at the output size.\<close>

definition present :: "(background_removal_instance, unit) prog" where
  "present = (\<lambda>s. emit (Draw_sprite (masked s) (fst (out_size s)) (snd (out_size s))) s)"

definition video_render :: "(event \<Rightarrow> bool) \<Rightarrow> host \<Rightarrow> (background_removal_instance, unit) prog" where
  "video_render ok h = (\<lambda>s.
     if \<not> provider_ready s \<or> render_target h = None \<or> base_width h = 0 \<or> base_height h = 0
     then emit Skip_video_filter s
     else bind_p (if dirty s then recompute ok h else return_p True)
            (\<lambda>go. if go then present else return_p ()) s)"

section \<open>The size enforced by the NVIDIA background removal filter\<close>

text \<open>
  \<^verbatim>\<open>_enforce_size_nvidia_background_removal\<close> of
  \<^verbatim>\<open>source/filters/filter-nv-background-removal.cpp\<close> computes in \<^verbatim>\<open>double\<close>.
  A finite non-negative double is kept as its mantissa and exponent, \<open>(m, e)\<close> for
  \<open>m * 2 ^ e\<close>; a quotient or product is rounded to 53 bits, to nearest with ties to
  even, as IEEE 754 does.  The operands here come from 32-bit integers, so neither
  overflow nor subnormal numbers occur.
\<close>

type_synonym double = "int \<times> int"

fun bit_length :: "nat \<Rightarrow> nat" where
  "bit_length n = (if n = 0 then 0 else Suc (bit_length (n div 2)))"

declare bit_length.simps [simp del]

text \<open>The integer nearest to \<open>num / den\<close> (for \<open>den > 0\<close>), ties to the even one.\<close>

definition round_half_even :: "int \<Rightarrow> int \<Rightarrow> int" where
  "round_half_even num den =
     (let q = num div den; r = num mod den
      in if 2 * r < den then q else if den < 2 * r then q + 1
         else if even q then q else q + 1)"

text \<open>
  The double nearest to \<open>num / den\<close>, for \<open>num \<ge> 0\<close> and \<open>den > 0\<close>: \<open>l\<close> is the
  exponent of the leading bit of the quotient, and the mantissa has 53 bits.
\<close>

definition to_double :: "int \<Rightarrow> int \<Rightarrow> double" where
  "to_double num den =
     (if num = 0 then (0, 0)
      else
        let n = int (bit_length (nat num)) - int (bit_length (nat den));
            l = (if den * 2 ^ nat n \<le> num * 2 ^ nat (- n) then n else n - 1);
            e = l - 52
        in (round_half_even (num * 2 ^ nat (- e)) (den * 2 ^ nat e), e))"

text \<open>\<^verbatim>\<open>static_cast<double>(n) * d\<close> for an integer \<open>n\<close> of at most 32 bits.\<close>

definition double_times :: "int \<Rightarrow> double \<Rightarrow> double" where
  "double_times n d = (case d of (m, e) \<Rightarrow> to_double (n * m * 2 ^ nat e) (2 ^ nat (- e)))"

text \<open>C's \<^verbatim>\<open>round\<close> on a non-negative double: to nearest, halves away from zero.\<close>

definition c_round :: "double \<Rightarrow> int" where
  "c_round d =
     (case d of (m, e) \<Rightarrow> (2 * (m * 2 ^ nat e) + 2 ^ nat (- e)) div (2 * 2 ^ nat (- e)))"

text \<open>\<^verbatim>\<open>std::clamp<uint32_t>(v, lo, hi)\<close>.\<close>

definition clamp :: "uint32_t \<Rightarrow> uint32_t \<Rightarrow> uint32_t \<Rightarrow> uint32_t" where
  "clamp v lo hi = (if v < lo then lo else if hi < v then hi else v)"

text \<open>
  The function itself.  With \<open>x \<le> y\<close> and \<open>y = 0\<close> the ratio is \<open>0.0 / 0.0\<close>, not a
  number, and its conversion to \<^verbatim>\<open>uint32_t\<close> is undefined: \<open>None\<close>.
\<close>

definition enforce_size_nvidia_background_removal ::
  "uint32_t \<Rightarrow> uint32_t \<Rightarrow> (uint32_t \<times> uint32_t) option" where
  "enforce_size_nvidia_background_removal x y =
     (if y < x then
        let ar = to_double (uint y) (uint x);
            rx = clamp x 142 1920;
            ry = word_of_int (c_round (double_times (uint rx) ar))
        in Some (rx, ry)
      else if y = 0 then None
      else
        let ar = to_double (uint x) (uint y);
            ry = clamp y 80 1080;
            rx = word_of_int (c_round (double_times (uint ry) ar))
        in Some (rx, ry))"

definition short_side :: "uint32_t \<times> uint32_t \<Rightarrow> uint32_t" where
  "short_side p = min (fst p) (snd p)"

section \<open>What a resize is expected to do\<close>

text \<open>
  The words of the specification for \<^verbatim>\<open>resize\<close>: a buffer whose size differs from
  the requested one goes through one reallocation cycle (unmap and deallocate the old
  buffer, allocate and map a new one), the effect's image parameter is bound again, and
  the adapter is marked dirty.
\<close>

definition size_matches :: "uint32_t \<Rightarrow> uint32_t \<Rightarrow> gs_texture \<Rightarrow> bool" where
  "size_matches w h t = (tex_width t = w \<and> tex_height t = h)"

definition resized :: "uint32_t \<Rightarrow> uint32_t \<Rightarrow> gs_texture \<Rightarrow> gs_texture" where
  "resized w h t = \<lparr>tex_width = w, tex_height = h, tex_format = tex_format t, tex_pixels = Blank\<rparr>"

definition texture_cycle :: "role \<Rightarrow> uint32_t \<Rightarrow> uint32_t \<Rightarrow> gs_color_format \<Rightarrow> event list" where
  "texture_cycle r w h fmt =
     [NvCVImage_UnmapResource r, NvCVImage_Dealloc r, Gs_texture_create r w h fmt,
      NvCVImage_InitFromD3D11Texture r, NvCVImage_MapResource r]"

definition input_reallocation :: "uint32_t \<Rightarrow> uint32_t \<Rightarrow> gs_texture \<Rightarrow> event list" where
  "input_reallocation w h t =
     Log Log_debug Cv_texture ''Resizing object...''
       # texture_cycle Input w h (tex_format t)
       @ [Image_resize Source w h, NvVFX_SetImage INPUT_IMAGE_0 Source, NvVFX_SetU32]"

definition output_reallocation :: "uint32_t \<Rightarrow> uint32_t \<Rightarrow> gs_texture \<Rightarrow> event list" where
  "output_reallocation w h t =
     Image_resize Destination w h
       # Log Log_debug Cv_texture ''Resizing object...''
       # texture_cycle Output w h (tex_format t)
       @ [NvVFX_SetImage OUTPUT_IMAGE_0 Destination]"

fun is_log :: "event \<Rightarrow> bool" where
  "is_log (Log _ _ _) = True"
| "is_log _ = False"

text \<open>The calls among the events: everything but the log lines.\<close>

definition calls :: "event list \<Rightarrow> event list" where
  "calls t = filter (\<lambda>e. \<not> is_log e) t"

text \<open>
  Every \<^verbatim>\<open>resize\<close> creates \<^verbatim>\<open>_tmp\<close> before any other buffer, and nothing resets a
  buffer but the destructor: an adapter that has any buffer has \<^verbatim>\<open>_tmp\<close>.
\<close>

definition tmp_first :: "background_removal \<Rightarrow> bool" where
  "tmp_first a =
     (tmp a = None \<longrightarrow>
      fx_input a = None \<and> source a = None \<and> destination a = None \<and> fx_output a = None)"

section \<open>Who makes an event, and what a program leaves alone\<close>

text \<open>
  The events that the filter makes itself, as opposed to those of the adapter and of the
  buffers under it.
\<close>

fun filter_event :: "event \<Rightarrow> bool" where
  "filter_event (Log _ org _) = (org = Filter_background_removal)"
| "filter_event Skip_video_filter = True"
| "filter_event Process_filter_begin = True"
| "filter_event Process_filter_end = True"
| "filter_event (Render _ _ _) = True"
| "filter_event Effect_loop_mask = True"
| "filter_event (Draw_sprite _ _ _) = True"
| "filter_event (Threadpool_pop _) = True"
| "filter_event (Threadpool_push _) = True"
| "filter_event _ = False"

fun is_filter_log :: "event \<Rightarrow> bool" where
  "is_filter_log (Log _ org _) = (org = Filter_background_removal)"
| "is_filter_log _ = False"

fun is_draw :: "event \<Rightarrow> bool" where
  "is_draw (Draw_sprite _ _ _) = True"
| "is_draw _ = False"

text \<open>The events of the adapter and of what lies under it: all the others.\<close>

abbreviation (input) accel :: "event \<Rightarrow> bool" where
  "accel \<equiv> (\<lambda>e. \<not> filter_event e)"

text \<open>
  \<open>preserves f P m\<close>: whatever \<open>m\<close> does and however it ends, it leaves the part \<open>f\<close> of
  the state as it was, and all its events satisfy \<open>P\<close>.
\<close>

definition preserves :: "('s \<Rightarrow> 'b) \<Rightarrow> (event \<Rightarrow> bool) \<Rightarrow> ('s, 'a) prog \<Rightarrow> bool" where
  "preserves f P m = (\<forall>s. f (fst (snd (m s))) = f s \<and> list_all P (snd (snd (m s))))"

text \<open>\<open>catchable m\<close>: no run of \<open>m\<close> ends the process.\<close>

definition catchable :: "('s, 'a) prog \<Rightarrow> bool" where
  "catchable m = (\<forall>s. fst (m s) \<noteq> Inl Std_terminate)"

section \<open>States used as concrete inputs\<close>

text \<open>
  The adapter as its constructor leaves it, and the instance once the switch task has
  loaded the NVIDIA provider for a source of 160 by 90 pixels.
\<close>

definition loaded_fx :: background_removal where
  "loaded_fx =
     \<lparr>tmp = Some \<lparr>img_width = 160, img_height = 90\<rparr>,
      fx_input = Some \<lparr>tex_width = 160, tex_height = 90, tex_format = GS_RGBA_UNORM,
                       tex_pixels = Blank\<rparr>,
      source = Some \<lparr>img_width = 160, img_height = 90\<rparr>,
      destination = Some \<lparr>img_width = 160, img_height = 90\<rparr>,
      fx_output = Some \<lparr>tex_width = 160, tex_height = 90, tex_format = GS_A8,
                        tex_pixels = Blank\<rparr>,
      fx_dirty = False\<rparr>"

definition loaded_instance :: background_removal_instance where
  "loaded_instance =
     new_instance\<lparr>provider := NVIDIA_GREEN_SCREEN,
                  provider_task := Some \<lparr>spd_provider = INVALID\<rparr>,
                  provider_ready := True,
                  nvidia_fx := Some loaded_fx\<rparr>"

text \<open>The instance after a further switch, to no provider, has completed.\<close>

definition unloaded_instance :: background_removal_instance where
  "unloaded_instance =
     loaded_instance\<lparr>provider := INVALID,
                     provider_task := Some \<lparr>spd_provider = NVIDIA_GREEN_SCREEN\<rparr>,
                     nvidia_fx := None\<rparr>"

definition host_160x90 :: host where
  "host_160x90 =
     \<lparr>filter_target = Some 1, filter_parent = Some 0, base_width = 160, base_height = 90,
      filter_begin = True, upstream = 7\<rparr>"

definition all_ok :: "event \<Rightarrow> bool" where
  "all_ok e = True"

text \<open>Oracles that refuse one call: the effect's run, and the effect's load.\<close>

definition run_fails :: "event \<Rightarrow> bool" where
  "run_fails e = (e \<noteq> NvVFX_Run)"

definition load_fails :: "event \<Rightarrow> bool" where
  "load_fails e = (e \<noteq> NvVFX_Load)"

text \<open>
  Oracles that refuse to unmap the adapter's input texture, and to create a graphics
  texture of 1280 by 720 pixels for it; and a host whose source has that size.
\<close>

definition unmap_fails :: "event \<Rightarrow> bool" where
  "unmap_fails e = (e \<noteq> NvCVImage_UnmapResource Input)"

definition create_fails :: "event \<Rightarrow> bool" where
  "create_fails e = (e \<noteq> Gs_texture_create Input 1280 720 GS_RGBA_UNORM)"

definition host_1280x720 :: host where
  "host_1280x720 =
     \<lparr>filter_target = Some 1, filter_parent = Some 0, base_width = 1280, base_height = 720,
      filter_begin = True, upstream = 7\<rparr>"

section \<open>Properties\<close>

lemmas prog_defs = return_p_def raise_def emit_def modify_def bind_p_def then_p_def try_catch_def

lemma new_background_removal_all_ok:
  "fst (new_background_removal all_ok) = Inr () \<and> fst (snd (new_background_removal all_ok)) = loaded_fx"
  by (simp add: new_background_removal_def construct_background_removal_def resize_def
      resize_tmp_def resize_input_def
      resize_output_def input_size_changed_def output_size_changed_def resize_or_create_def
      texture_new_def gs_texture_new_def texture_alloc_def image_new_def load_def nvcall_def
      all_ok_def loaded_fx_def prog_defs)

text \<open>
  \<open>loaded_instance\<close> is reached from the constructor's state: the configuration selects
  the NVIDIA provider and the task that \<open>switch_provider\<close> pushed runs.
\<close>

lemma loaded_instance_reached:
  "fst (snd (bind_p (update \<lparr>nvidia_available = True\<rparr> AUTOMATIC)
       (\<lambda>_. task_switch_provider all_ok \<lparr>spd_provider = INVALID\<rparr>) new_instance))
   = loaded_instance"
proof -
  obtain t where "new_background_removal all_ok = (Inr (), loaded_fx, t)"
    using new_background_removal_all_ok by (metis prod.collapse)
  then show ?thesis
    by (simp add: update_def provider_priority_def is_provider_available_def
        switch_provider_def new_instance_def
        task_switch_provider_def task_mark_not_ready_def task_try_block_def task_unload_def
        task_load_def nvidia_load_def log_cstring_def cstring_def
        loaded_instance_def prog_defs)
qed

subsection \<open>Skipping the filter\<close>

text \<open>
  C1.  A render call made while the provider is not ready, or without a render target
  (neither the filter's target nor, in its place, the filter's parent), or with a target
  whose width or height is zero, does nothing but tell the host to skip the filter: the
  instance, with its cached frame, its dirty flag and its provider, is left as it was.
\<close>

theorem video_render_skips_filter:
  "\<not> provider_ready s \<or> render_target h = None \<or> base_width h = 0 \<or> base_height h = 0
   \<Longrightarrow> video_render ok h s = (Inr (), s, [Skip_video_filter])"
  by (auto simp add: video_render_def emit_def)

theorem video_render_skips_filter_witness:
  "provider_ready new_instance = False
   \<and> video_render all_ok host_160x90 new_instance = (Inr (), new_instance, [Skip_video_filter])"
  using video_render_skips_filter [of new_instance host_160x90 all_ok]
  by (simp add: new_instance_def)

subsection \<open>Requests to switch the provider\<close>

text \<open>
  C3.  \<open>switch_provider\<close> called with the provider that is already active returns at once:
  no event (no task evicted or pushed, nothing allocated) and the instance unchanged, so
  the active provider, \<open>provider_ready\<close> and the task handle are what they were.
\<close>

theorem switch_provider_same_is_noop:
  "p = provider s \<Longrightarrow> switch_provider p s = (Inr (), s, [])"
  by (simp add: switch_provider_def return_p_def)

theorem switch_provider_same_is_noop_witness:
  "NVIDIA_GREEN_SCREEN = provider loaded_instance
   \<and> switch_provider NVIDIA_GREEN_SCREEN loaded_instance = (Inr (), loaded_instance, [])"
  using switch_provider_same_is_noop [of NVIDIA_GREEN_SCREEN loaded_instance]
  by (simp add: loaded_instance_def)

text \<open>
  C4, as the claim states it, fails: \<open>switch_provider\<close> does not touch
  \<open>provider_ready\<close>.  Asked to leave the loaded NVIDIA provider, it returns with the flag
  still set.
\<close>

theorem switch_provider_keeps_ready_counterexample:
  "provider_ready (fst (snd (switch_provider INVALID loaded_instance))) = True"
  by (simp add: switch_provider_def loaded_instance_def new_instance_def log_cstring_def
      cstring_def prog_defs)

lemma log_cstring_eq:
  "log_cstring sev org msg ps s =
     (if list_all listed ps then (Inr (), s, [Log sev org msg])
      else (Inl (Runtime_error ''Missing Conversion Entry''), s, []))"
proof -
  have "first_throw (map cstring ps) =
      (if list_all listed ps then None else Some (Runtime_error ''Missing Conversion Entry''))"
    by (induction ps) (simp_all add: cstring_def listed_def)
  then show ?thesis
    by (simp add: log_cstring_def raise_def emit_def)
qed

text \<open>
  C4, amended.  Let \<open>p\<close> differ from the active provider.  When both are enumerators,
  \<open>switch_provider p\<close> logs the switch, evicts the task the instance holds (if any), makes
  \<open>p\<close> the active provider, and pushes a task whose data is the old provider, keeping it
  as the instance's task.  When one of them is not an enumerator the call throws while it
  builds its first log line, and has done nothing.  Either way \<open>provider_ready\<close> is as it
  was when the call returns.  The flag is cleared by the pushed task, before anything
  else: run on the data that was pushed, from the state the call left, the task is its
  \<^verbatim>\<open>try\<close> statement started in that state with the flag cleared.
\<close>

theorem switch_provider_records_and_pushes:
  assumes "p \<noteq> provider s"
  shows
    "(listed p \<and> listed (provider s) \<longrightarrow>
        switch_provider p s =
          (Inr (),
           s\<lparr>provider := p, provider_task := Some \<lparr>spd_provider = provider s\<rparr>\<rparr>,
           Log Log_info Filter_background_removal
               ''Instance '%s' is switching provider from '%s' to '%s'.''
             # (case provider_task s of None \<Rightarrow> [] | Some t \<Rightarrow> [Threadpool_pop t])
             @ [Threadpool_push \<lparr>spd_provider = provider s\<rparr>]))
     \<and> (\<not> (listed p \<and> listed (provider s)) \<longrightarrow>
          switch_provider p s = (Inl (Runtime_error ''Missing Conversion Entry''), s, []))
     \<and> provider_ready (fst (snd (switch_provider p s))) = provider_ready s
     \<and> task_switch_provider ok \<lparr>spd_provider = provider s\<rparr>
          (s\<lparr>provider := p, provider_task := Some \<lparr>spd_provider = provider s\<rparr>\<rparr>)
        = try_catch (task_try_block ok \<lparr>spd_provider = provider s\<rparr>)
            (\<lambda>ex. emit (Log Log_error Filter_background_removal
               ''Instance '%s' failed switching provider with error: %s''))
            (s\<lparr>provider := p, provider_task := Some \<lparr>spd_provider = provider s\<rparr>,
               provider_ready := False\<rparr>)"
proof -
  have sw: "switch_provider p s =
      (if listed p \<and> listed (provider s)
       then (Inr (),
             s\<lparr>provider := p, provider_task := Some \<lparr>spd_provider = provider s\<rparr>\<rparr>,
             Log Log_info Filter_background_removal
                 ''Instance '%s' is switching provider from '%s' to '%s'.''
               # (case provider_task s of None \<Rightarrow> [] | Some t \<Rightarrow> [Threadpool_pop t])
               @ [Threadpool_push \<lparr>spd_provider = provider s\<rparr>])
       else (Inl (Runtime_error ''Missing Conversion Entry''), s, []))"
    using assms
    by (auto simp add: switch_provider_def log_cstring_eq prog_defs split: option.splits)
  have task: "task_switch_provider ok \<lparr>spd_provider = provider s\<rparr>
        (s\<lparr>provider := p, provider_task := Some \<lparr>spd_provider = provider s\<rparr>\<rparr>)
      = try_catch (task_try_block ok \<lparr>spd_provider = provider s\<rparr>)
          (\<lambda>ex. emit (Log Log_error Filter_background_removal
             ''Instance '%s' failed switching provider with error: %s''))
          (s\<lparr>provider := p, provider_task := Some \<lparr>spd_provider = provider s\<rparr>,
             provider_ready := False\<rparr>)"
    by (simp add: task_switch_provider_def task_mark_not_ready_def then_p_def bind_p_def
        modify_def)
  from sw task show ?thesis by simp
qed

theorem switch_provider_records_and_pushes_witness:
  "INVALID \<noteq> provider loaded_instance
   \<and> switch_provider INVALID loaded_instance =
       (Inr (),
        loaded_instance\<lparr>provider := INVALID,
                         provider_task := Some \<lparr>spd_provider = NVIDIA_GREEN_SCREEN\<rparr>\<rparr>,
        [Log Log_info Filter_background_removal
           ''Instance '%s' is switching provider from '%s' to '%s'.'',
         Threadpool_pop \<lparr>spd_provider = INVALID\<rparr>,
         Threadpool_push \<lparr>spd_provider = NVIDIA_GREEN_SCREEN\<rparr>])
   \<and> 7 \<noteq> provider loaded_instance
   \<and> switch_provider 7 loaded_instance =
       (Inl (Runtime_error ''Missing Conversion Entry''), loaded_instance, [])"
proof -
  have p: "provider loaded_instance = NVIDIA_GREEN_SCREEN"
    "provider_task loaded_instance = Some \<lparr>spd_provider = INVALID\<rparr>"
    by (simp_all add: loaded_instance_def new_instance_def)
  have a: "INVALID \<noteq> provider loaded_instance" and b: "7 \<noteq> provider loaded_instance"
    by (simp_all add: p)
  have la: "listed INVALID \<and> listed (provider loaded_instance)"
    and lb: "\<not> (listed 7 \<and> listed (provider loaded_instance))"
    by (simp_all add: p listed_def)
  from switch_provider_records_and_pushes [OF a, of all_ok] la
  have "switch_provider INVALID loaded_instance =
       (Inr (),
        loaded_instance\<lparr>provider := INVALID,
                         provider_task := Some \<lparr>spd_provider = NVIDIA_GREEN_SCREEN\<rparr>\<rparr>,
        [Log Log_info Filter_background_removal
           ''Instance '%s' is switching provider from '%s' to '%s'.'',
         Threadpool_pop \<lparr>spd_provider = INVALID\<rparr>,
         Threadpool_push \<lparr>spd_provider = NVIDIA_GREEN_SCREEN\<rparr>])"
    by (simp add: p)
  moreover from switch_provider_records_and_pushes [OF b, of all_ok] lb
  have "switch_provider 7 loaded_instance =
       (Inl (Runtime_error ''Missing Conversion Entry''), loaded_instance, [])"
    by blast
  ultimately show ?thesis using a b by simp
qed

subsection \<open>Automatic selection\<close>

lemma first_available_find:
  "first_available fac vs p =
     (case find (is_provider_available fac) vs of Some v \<Rightarrow> v | None \<Rightarrow> p)"
  by (induction vs) simp_all

text \<open>
  C9.  An update that selects \<open>AUTOMATIC\<close> replaces it by the first provider of the
  priority list that the factory reports available (\<open>AUTOMATIC\<close> itself stays when there
  is none) and only then compares with the active provider: a different provider is
  handed to \<open>switch_provider\<close>; an equal one leaves the instance alone, with no event.
\<close>

theorem update_automatic_resolves_by_priority:
  "update fac AUTOMATIC s =
     (let resolved = (case find (is_provider_available fac) provider_priority of
                        Some v \<Rightarrow> v | None \<Rightarrow> AUTOMATIC)
      in if resolved \<noteq> provider s then switch_provider resolved s else (Inr (), s, []))"
  by (simp add: update_def first_available_find return_p_def Let_def)

theorem update_automatic_resolves_by_priority_witness:
  "update \<lparr>nvidia_available = True\<rparr> AUTOMATIC new_instance
     = switch_provider NVIDIA_GREEN_SCREEN new_instance
   \<and> update \<lparr>nvidia_available = True\<rparr> AUTOMATIC loaded_instance = (Inr (), loaded_instance, [])"
  using update_automatic_resolves_by_priority [of "\<lparr>nvidia_available = True\<rparr>" new_instance]
    update_automatic_resolves_by_priority [of "\<lparr>nvidia_available = True\<rparr>" loaded_instance]
  by (simp add: provider_priority_def is_provider_available_def new_instance_def
      loaded_instance_def)

subsection \<open>The output size of the NVIDIA adapter\<close>

text \<open>
  C10.  The adapter's \<open>size\<close> returns its input size untouched and makes the output size
  equal to it, component by component, whatever the sizes are: nothing is clamped and no
  aspect ratio is enforced.  Through \<open>nvidia_size\<close> the instance's output size becomes its
  input size whenever an adapter is loaded.
\<close>

theorem size_fx_output_is_input:
  "size_fx sz input_size output_size = (input_size, input_size)
   \<and> fst (snd (size_fx sz input_size output_size)) = fst input_size
   \<and> snd (snd (size_fx sz input_size output_size)) = snd input_size
   \<and> nvidia_size s = (if nvidia_fx s = None then s else s\<lparr>out_size := in_size s\<rparr>)"
  by (cases input_size) (simp add: size_fx_def nvidia_size_def split: option.splits)

theorem size_fx_output_is_input_witness:
  "size_fx (4000, 30) (4000, 30) (1, 1) = ((4000, 30), (4000, 30))
   \<and> out_size (nvidia_size (loaded_instance\<lparr>in_size := (4000, 30)\<rparr>)) = (4000, 30)"
  using size_fx_output_is_input
    [of "(4000, 30)" "(4000, 30)" "(1, 1)" "loaded_instance\<lparr>in_size := (4000, 30)\<rparr>"]
  by (simp add: loaded_instance_def)

subsection \<open>Reallocation on resize\<close>

lemma texture_resize_ok:
  "list_all ok (texture_cycle r w h (tex_format t)) \<Longrightarrow>
   texture_resize ok r w h t =
     (Inr (), resized w h t,
      Log Log_debug Cv_texture ''Resizing object...'' # texture_cycle r w h (tex_format t))"
  by (simp add: texture_resize_def texture_free_def texture_alloc_def gs_texture_new_def
      nvcall_def texture_cycle_def resized_def prog_defs)

lemma resize_tmp_present:
  "tmp a \<noteq> None \<Longrightarrow> resize_tmp ok w h a = (Inr (), a, [])"
  by (auto simp add: resize_tmp_def return_p_def)

lemma resize_input_same:
  "fx_input a = Some tin \<Longrightarrow> source a \<noteq> None \<Longrightarrow> size_matches w h tin \<Longrightarrow>
   resize_input ok w h a = (Inr (), a, [])"
  by (auto simp add: resize_input_def input_size_changed_def size_matches_def return_p_def)

lemma resize_output_same:
  "fx_output a = Some tout \<Longrightarrow> destination a \<noteq> None \<Longrightarrow> size_matches w h tout \<Longrightarrow>
   resize_output ok w h a = (Inr (), a, [])"
  by (auto simp add: resize_output_def output_size_changed_def size_matches_def return_p_def)

lemma resize_input_changed:
  "fx_input a = Some tin \<Longrightarrow> source a \<noteq> None \<Longrightarrow> \<not> size_matches w h tin \<Longrightarrow>
   list_all ok (calls (input_reallocation w h tin)) \<Longrightarrow>
   resize_input ok w h a =
     (Inr (),
      a\<lparr>fx_input := Some (resized w h tin),
        source := Some \<lparr>img_width = w, img_height = h\<rparr>, fx_dirty := True\<rparr>,
      input_reallocation w h tin)"
  by (auto simp add: resize_input_def input_size_changed_def size_matches_def calls_def
      resize_or_create_def texture_resize_ok input_reallocation_def texture_cycle_def
      image_resize_def nvcall_def prog_defs)

lemma resize_output_changed:
  "fx_output a = Some tout \<Longrightarrow> destination a \<noteq> None \<Longrightarrow> \<not> size_matches w h tout \<Longrightarrow>
   list_all ok (calls (output_reallocation w h tout)) \<Longrightarrow>
   resize_output ok w h a =
     (Inr (),
      a\<lparr>destination := Some \<lparr>img_width = w, img_height = h\<rparr>,
        fx_output := Some (resized w h tout), fx_dirty := True\<rparr>,
      output_reallocation w h tout)"
  by (auto simp add: resize_output_def output_size_changed_def size_matches_def calls_def
      resize_or_create_def texture_resize_ok output_reallocation_def texture_cycle_def
      image_resize_def nvcall_def prog_defs)

text \<open>
  C7.  Take an adapter whose buffers exist, \<open>tin\<close> and \<open>tout\<close> being the textures bound
  as input and output.  If both have the requested size, \<open>resize\<close> makes no call at all
  and leaves the adapter, dirty flag included, as it is.  If a size differs and the calls
  of the reallocation succeed, the role's texture is unmapped, deallocated, created
  anew at the requested size, wrapped and mapped, once; the image beside it is resized
  once; the effect's image parameter is set again; and the adapter is dirty.  A role whose
  size matches is not touched.
\<close>

theorem resize_reallocates_on_size_change:
  assumes "tmp a \<noteq> None" and "fx_input a = Some tin" and "source a \<noteq> None"
    and "destination a \<noteq> None" and "fx_output a = Some tout"
  shows
    "(size_matches w h tin \<and> size_matches w h tout
        \<longrightarrow> resize ok w h a = (Inr (), a, []))
     \<and> (\<not> size_matches w h tin \<and> size_matches w h tout
          \<and> list_all ok (calls (input_reallocation w h tin))
        \<longrightarrow> resize ok w h a =
              (Inr (),
               a\<lparr>fx_input := Some (resized w h tin),
                 source := Some \<lparr>img_width = w, img_height = h\<rparr>, fx_dirty := True\<rparr>,
               input_reallocation w h tin))
     \<and> (size_matches w h tin \<and> \<not> size_matches w h tout
          \<and> list_all ok (calls (output_reallocation w h tout))
        \<longrightarrow> resize ok w h a =
              (Inr (),
               a\<lparr>destination := Some \<lparr>img_width = w, img_height = h\<rparr>,
                 fx_output := Some (resized w h tout), fx_dirty := True\<rparr>,
               output_reallocation w h tout))
     \<and> (\<not> size_matches w h tin \<and> \<not> size_matches w h tout
          \<and> list_all ok (calls (input_reallocation w h tin @ output_reallocation w h tout))
        \<longrightarrow> resize ok w h a =
              (Inr (),
               a\<lparr>fx_input := Some (resized w h tin),
                 source := Some \<lparr>img_width = w, img_height = h\<rparr>,
                 destination := Some \<lparr>img_width = w, img_height = h\<rparr>,
                 fx_output := Some (resized w h tout), fx_dirty := True\<rparr>,
               input_reallocation w h tin @ output_reallocation w h tout))"
proof -
  have same: "size_matches w h tin \<and> size_matches w h tout
      \<longrightarrow> resize ok w h a = (Inr (), a, [])"
    using assms
    by (simp add: resize_def resize_tmp_present resize_input_same resize_output_same prog_defs)
  have inp: "\<not> size_matches w h tin \<and> size_matches w h tout
        \<and> list_all ok (calls (input_reallocation w h tin))
      \<longrightarrow> resize ok w h a =
            (Inr (),
             a\<lparr>fx_input := Some (resized w h tin),
               source := Some \<lparr>img_width = w, img_height = h\<rparr>, fx_dirty := True\<rparr>,
             input_reallocation w h tin)"
    using assms
    by (simp add: resize_def resize_tmp_present resize_input_changed resize_output_same prog_defs)
  have out: "size_matches w h tin \<and> \<not> size_matches w h tout
        \<and> list_all ok (calls (output_reallocation w h tout))
      \<longrightarrow> resize ok w h a =
            (Inr (),
             a\<lparr>destination := Some \<lparr>img_width = w, img_height = h\<rparr>,
               fx_output := Some (resized w h tout), fx_dirty := True\<rparr>,
             output_reallocation w h tout)"
    using assms
    by (simp add: resize_def resize_tmp_present resize_input_same resize_output_changed prog_defs)
  have both: "\<not> size_matches w h tin \<and> \<not> size_matches w h tout
        \<and> list_all ok (calls (input_reallocation w h tin @ output_reallocation w h tout))
      \<longrightarrow> resize ok w h a =
            (Inr (),
             a\<lparr>fx_input := Some (resized w h tin),
               source := Some \<lparr>img_width = w, img_height = h\<rparr>,
               destination := Some \<lparr>img_width = w, img_height = h\<rparr>,
               fx_output := Some (resized w h tout), fx_dirty := True\<rparr>,
             input_reallocation w h tin @ output_reallocation w h tout)"
    using assms
    by (simp add: resize_def resize_tmp_present resize_input_changed resize_output_changed
        calls_def prog_defs)
  from same inp out both show ?thesis by blast
qed

theorem resize_reallocates_on_size_change_witness:
  "resize all_ok 160 90 loaded_fx = (Inr (), loaded_fx, [])
   \<and> resize all_ok 1280 720 loaded_fx =
       (Inr (),
        \<lparr>tmp = Some \<lparr>img_width = 160, img_height = 90\<rparr>,
         fx_input = Some \<lparr>tex_width = 1280, tex_height = 720, tex_format = GS_RGBA_UNORM,
                          tex_pixels = Blank\<rparr>,
         source = Some \<lparr>img_width = 1280, img_height = 720\<rparr>,
         destination = Some \<lparr>img_width = 1280, img_height = 720\<rparr>,
         fx_output = Some \<lparr>tex_width = 1280, tex_height = 720, tex_format = GS_A8,
                           tex_pixels = Blank\<rparr>,
         fx_dirty = True\<rparr>,
        [Log Log_debug Cv_texture ''Resizing object...'',
         NvCVImage_UnmapResource Input, NvCVImage_Dealloc Input,
         Gs_texture_create Input 1280 720 GS_RGBA_UNORM,
         NvCVImage_InitFromD3D11Texture Input, NvCVImage_MapResource Input,
         Image_resize Source 1280 720, NvVFX_SetImage INPUT_IMAGE_0 Source, NvVFX_SetU32,
         Image_resize Destination 1280 720,
         Log Log_debug Cv_texture ''Resizing object...'',
         NvCVImage_UnmapResource Output, NvCVImage_Dealloc Output,
         Gs_texture_create Output 1280 720 GS_A8,
         NvCVImage_InitFromD3D11Texture Output, NvCVImage_MapResource Output,
         NvVFX_SetImage OUTPUT_IMAGE_0 Destination])"
  using
    resize_reallocates_on_size_change [of loaded_fx
      "\<lparr>tex_width = 160, tex_height = 90, tex_format = GS_RGBA_UNORM, tex_pixels = Blank\<rparr>"
      "\<lparr>tex_width = 160, tex_height = 90, tex_format = GS_A8, tex_pixels = Blank\<rparr>"
      160 90 all_ok]
    resize_reallocates_on_size_change [of loaded_fx
      "\<lparr>tex_width = 160, tex_height = 90, tex_format = GS_RGBA_UNORM, tex_pixels = Blank\<rparr>"
      "\<lparr>tex_width = 160, tex_height = 90, tex_format = GS_A8, tex_pixels = Blank\<rparr>"
      1280 720 all_ok]
  by (simp add: loaded_fx_def size_matches_def resized_def input_reallocation_def
      output_reallocation_def texture_cycle_def calls_def all_ok_def)

subsection \<open>The enforced size\<close>

text \<open>
  The double model on known values: one half, and one third, whose IEEE 754 encoding
  \<^verbatim>\<open>0x3FD5555555555555\<close> has the mantissa \<^verbatim>\<open>0x15555555555555\<close>.
\<close>

lemma to_double_examples:
  "to_double 1 2 = (4503599627370496, - 53)"
  "to_double 1 3 = (6004799503160661, - 54)"
  by (simp_all add: to_double_def bit_length.simps round_half_even_def Let_def)

lemma bit_length_values:
  "bit_length 30 = 5" "bit_length 4000 = 12"
  "bit_length 16602069666338595840 = 64" "bit_length 1152921504606846976 = 61"
  by (simp_all add: bit_length.simps)

lemma aspect_30_4000: "to_double 30 4000 = (8646911284551352, - 60)"
  by (simp add: to_double_def bit_length_values round_half_even_def Let_def)

lemma times_1920_aspect:
  "double_times 1920 (8646911284551352, - 60) = (8106479329266892, - 49)"
proof -
  have "double_times 1920 (8646911284551352, - 60)
      = to_double 16602069666338595840 1152921504606846976"
    by (simp add: double_times_def)
  also have "\<dots> = (round_half_even 9346134345362689385478442010542080 1152921504606846976, - 49)"
    by (simp add: to_double_def bit_length_values Let_def)
  also have "round_half_even 9346134345362689385478442010542080 1152921504606846976
      = 8106479329266892"
    by (simp add: round_half_even_def Let_def)
  finally show ?thesis .
qed

lemma c_round_14: "c_round (8106479329266892, - 49) = 14"
  by (simp add: c_round_def)

lemma enforce_size_4000x30:
  "enforce_size_nvidia_background_removal 4000 30 = Some (1920, 14)"
  by (simp add: enforce_size_nvidia_background_removal_def clamp_def Let_def
      aspect_30_4000 times_1920_aspect c_round_14)

text \<open>
  The same ratio with the sides exchanged: 30 by 4000 gives 8 by 1080, a width far below
  the 142 that the function assumes as the horizontal limit.
\<close>

lemma bit_length_1080: "bit_length 9338664187315460160 = 64"
  by (simp add: bit_length.simps)

lemma times_1080_aspect:
  "double_times 1080 (8646911284551352, - 60) = (4559894622712627, - 49)"
proof -
  have "double_times 1080 (8646911284551352, - 60)
      = to_double 9338664187315460160 1152921504606846976"
    by (simp add: double_times_def)
  also have "\<dots> = (round_half_even 5257200569266512779331623630929920 1152921504606846976, - 49)"
    by (simp add: to_double_def bit_length_values bit_length_1080 Let_def)
  also have "round_half_even 5257200569266512779331623630929920 1152921504606846976
      = 4559894622712627"
    by (simp add: round_half_even_def Let_def)
  finally show ?thesis .
qed

lemma c_round_8: "c_round (4559894622712627, - 49) = 8"
  by (simp add: c_round_def)

lemma enforce_size_30x4000:
  "enforce_size_nvidia_background_removal 30 4000 = Some (8, 1080)"
  by (simp add: enforce_size_nvidia_background_removal_def clamp_def Let_def
      aspect_30_4000 times_1080_aspect c_round_8)

text \<open>
  C8.  The function's comment cites a documented vertical limit of 80p to 1080p and
  assumes a horizontal limit beside it.  The function keeps neither on the side it does
  not clamp: the width is the dominant side of 4000 by 30 and is clamped to 1920, and the
  height is 1920 times the aspect ratio 30 / 4000, that is 14.4, rounded to 14.  The
  result is 1920 by 14: its height, the short side, is 14 and not the 80 that the limit
  asks for.
\<close>

theorem enforce_size_short_side_below_limit:
  "enforce_size_nvidia_background_removal 4000 30 = Some (1920, 14)
   \<and> map_option short_side (enforce_size_nvidia_background_removal 4000 30) = Some 14
   \<and> map_option short_side (enforce_size_nvidia_background_removal 4000 30) \<noteq> Some 80"
  by (simp add: enforce_size_4000x30 short_side_def)

subsection \<open>Rules for \<open>preserves\<close>\<close>

lemma preservesD:
  "preserves f P m \<Longrightarrow> m s = (r, s1, t) \<Longrightarrow> f s1 = f s \<and> list_all P t"
  by (auto simp add: preserves_def dest: spec [of _ s])

lemma preserves_return: "preserves f P (return_p x)"
  by (simp add: preserves_def return_p_def)

lemma preserves_raise: "preserves f P (raise e)"
  by (simp add: preserves_def raise_def)

lemma preserves_emit: "P ev \<Longrightarrow> preserves f P (emit ev)"
  by (simp add: preserves_def emit_def)

lemma preserves_modify: "(\<And>s. f (g s) = f s) \<Longrightarrow> preserves f P (modify g)"
  by (simp add: preserves_def modify_def)

lemma preserves_bind:
  assumes "preserves f P m" and "\<And>x. preserves f P (k x)"
  shows "preserves f P (bind_p m k)"
proof -
  have "f (fst (snd (bind_p m k s))) = f s \<and> list_all P (snd (snd (bind_p m k s)))" for s
  proof (cases "m s")
    case (fields r s1 t1)
    with assms(1) have m: "f s1 = f s" "list_all P t1"
      by (auto dest: preservesD)
    show ?thesis
    proof (cases r)
      case (Inl e)
      with fields m show ?thesis by (simp add: bind_p_def)
    next
      case (Inr x)
      obtain r2 s2 t2 where k: "k x s1 = (r2, s2, t2)" by (cases "k x s1")
      with assms(2) have "f s2 = f s1" "list_all P t2"
        by (auto dest: preservesD)
      with fields m Inr k show ?thesis by (simp add: bind_p_def)
    qed
  qed
  then show ?thesis by (simp add: preserves_def)
qed

lemma preserves_then: "preserves f P m \<Longrightarrow> preserves f P n \<Longrightarrow> preserves f P (then_p m n)"
  by (simp add: then_p_def preserves_bind)

lemma preserves_seq_all: "list_all (preserves f P) ms \<Longrightarrow> preserves f P (seq_all ms)"
  by (induction ms) (simp_all add: preserves_return preserves_then)

lemma preserves_try_catch:
  assumes "preserves f P m" and "\<And>e. preserves f P (h e)"
  shows "preserves f P (try_catch m h)"
proof -
  have "f (fst (snd (try_catch m h s))) = f s \<and> list_all P (snd (snd (try_catch m h s)))" for s
  proof (cases "m s")
    case (fields r s1 t1)
    with assms(1) have m: "f s1 = f s" "list_all P t1"
      by (auto dest: preservesD)
    show ?thesis
    proof (cases r)
      case (Inr x)
      with fields m show ?thesis by (simp add: try_catch_def)
    next
      case (Inl e)
      obtain r2 s2 t2 where k: "h e s1 = (r2, s2, t2)" by (cases "h e s1")
      with assms(2) have "f s2 = f s1" "list_all P t2"
        by (auto dest: preservesD)
      with fields m Inl k show ?thesis
        by (cases "e = Std_terminate") (simp_all add: try_catch_def)
    qed
  qed
  then show ?thesis by (simp add: preserves_def)
qed

lemma preserves_noexcept: "preserves f P m \<Longrightarrow> preserves f P (noexcept_p m)"
  by (simp add: preserves_def noexcept_p_def split: prod.splits sum.splits)
    (metis fst_conv snd_conv)

lemma preserves_log_cstring: "P (Log sev org msg) \<Longrightarrow> preserves f P (log_cstring sev org msg ps)"
  by (simp add: preserves_def log_cstring_eq)

lemma preserves_nvcall:
  "P c \<Longrightarrow> P (Log Log_error org msg) \<Longrightarrow> preserves f P (nvcall ok org c msg what)"
  by (simp add: preserves_def nvcall_def)

lemma preserves_host_call: "P c \<Longrightarrow> preserves f P (host_call ok c what)"
  by (simp add: preserves_def host_call_def)

lemma preserves_if:
  "preserves f P m \<Longrightarrow> preserves f P n \<Longrightarrow> preserves f P (\<lambda>s. if c s then m s else n s)"
  by (simp add: preserves_def)

lemmas preserves_rules =
  preserves_return preserves_raise preserves_emit preserves_modify preserves_bind
  preserves_then preserves_try_catch preserves_nvcall preserves_host_call

subsection \<open>Rules for \<open>catchable\<close>\<close>

lemma catchableD: "catchable m \<Longrightarrow> m s = (r, s1, t) \<Longrightarrow> r \<noteq> Inl Std_terminate"
  by (auto simp add: catchable_def dest: spec [of _ s])

lemma catchable_return: "catchable (return_p x)"
  by (simp add: catchable_def return_p_def)

lemma catchable_emit: "catchable (emit ev)"
  by (simp add: catchable_def emit_def)

lemma catchable_modify: "catchable (modify g)"
  by (simp add: catchable_def modify_def)

lemma catchable_bind:
  assumes "catchable m" and "\<And>x. catchable (k x)"
  shows "catchable (bind_p m k)"
proof -
  have "fst (bind_p m k s) \<noteq> Inl Std_terminate" for s
  proof (cases "m s")
    case (fields r s1 t1)
    with assms(1) have m: "r \<noteq> Inl Std_terminate" by (auto dest: catchableD)
    show ?thesis
    proof (cases r)
      case (Inl e)
      with fields m show ?thesis by (simp add: bind_p_def)
    next
      case (Inr x)
      obtain r2 s2 t2 where k: "k x s1 = (r2, s2, t2)" by (cases "k x s1")
      with assms(2) have "r2 \<noteq> Inl Std_terminate" by (auto dest: catchableD)
      with fields Inr k show ?thesis by (simp add: bind_p_def)
    qed
  qed
  then show ?thesis by (simp add: catchable_def)
qed

lemma catchable_then: "catchable m \<Longrightarrow> catchable n \<Longrightarrow> catchable (then_p m n)"
  by (simp add: then_p_def catchable_bind)

lemma catchable_seq_all: "list_all catchable ms \<Longrightarrow> catchable (seq_all ms)"
  by (induction ms) (simp_all add: catchable_return catchable_then)

lemma catchable_nvcall: "catchable (nvcall ok org c msg what)"
  by (simp add: catchable_def nvcall_def)

lemma catchable_host_call: "catchable (host_call ok c what)"
  by (simp add: catchable_def host_call_def)

lemma catchable_if:
  "catchable m \<Longrightarrow> catchable n \<Longrightarrow> catchable (\<lambda>s. if c s then m s else n s)"
  by (simp add: catchable_def)

lemma catchable_log_cstring: "catchable (log_cstring sev org msg ps)"
  by (simp add: catchable_def log_cstring_eq)

subsection \<open>The adapter makes no event of the filter\<close>

lemma texture_free_accel: "preserves f accel (texture_free ok r)"
  unfolding texture_free_def
  by (intro preserves_seq_all) (simp add: preserves_nvcall)

lemma texture_delete_accel: "preserves f accel (texture_delete ok r)"
  unfolding texture_delete_def by (rule preserves_noexcept [OF texture_free_accel])

lemma texture_alloc_accel: "preserves f accel (texture_alloc ok r)"
  unfolding texture_alloc_def
  by (intro preserves_seq_all) (simp add: preserves_nvcall)

lemma gs_texture_new_accel: "preserves f accel (gs_texture_new ok r w h fmt)"
  by (simp add: preserves_def gs_texture_new_def)

lemma texture_new_accel: "preserves f accel (texture_new ok r w h fmt)"
  unfolding texture_new_def
  by (intro preserves_bind preserves_then gs_texture_new_accel texture_alloc_accel preserves_return)

lemma texture_resize_accel: "preserves (\<lambda>_. ()) accel (texture_resize ok r w h)"
  unfolding texture_resize_def
  by (intro preserves_seq_all)
    (simp add: preserves_emit texture_free_accel texture_alloc_accel,
     simp add: preserves_def gs_texture_new_def)

lemma image_new_accel: "preserves f accel (image_new ok r w h)"
  by (simp add: preserves_def image_new_def)

lemma image_resize_accel: "preserves (\<lambda>_. ()) accel (image_resize ok r w h)"
  by (simp add: preserves_def image_resize_def)

lemma resize_or_create_accel:
  assumes "preserves (\<lambda>_. ()) P rs" and "preserves (\<lambda>_. ()) P mk"
  shows "preserves (\<lambda>_. ()) P (resize_or_create rd wr rs mk)"
proof -
  have "list_all P (snd (snd (resize_or_create rd wr rs mk s)))" for s
  proof (cases "rd s")
    case None
    obtain r s1 t where mk: "mk s = (r, s1, t)" by (cases "mk s")
    with assms(2) have "list_all P t" by (auto dest: preservesD)
    with None mk show ?thesis by (cases r) (simp_all add: resize_or_create_def)
  next
    case (Some b)
    obtain r b1 t where rs: "rs b = (r, b1, t)" by (cases "rs b")
    with assms(1) have "list_all P t" by (auto dest: preservesD)
    with Some rs show ?thesis by (simp add: resize_or_create_def)
  qed
  then show ?thesis by (simp add: preserves_def)
qed

lemma resize_accel: "preserves (\<lambda>_. ()) accel (resize ok w h)"
proof -
  have tmp: "preserves (\<lambda>_. ()) accel (resize_tmp ok w h)"
    unfolding resize_tmp_def
    by (intro preserves_if preserves_bind image_new_accel preserves_modify preserves_return) simp
  have inp: "preserves (\<lambda>_. ()) accel (resize_input ok w h)"
    unfolding resize_input_def
    by (intro preserves_if preserves_seq_all preserves_return)
      (simp add: resize_or_create_accel texture_resize_accel texture_new_accel
        image_resize_accel image_new_accel preserves_nvcall preserves_modify)
  have out: "preserves (\<lambda>_. ()) accel (resize_output ok w h)"
    unfolding resize_output_def
    by (intro preserves_if preserves_seq_all preserves_return)
      (simp add: resize_or_create_accel texture_resize_accel texture_new_accel
        image_resize_accel image_new_accel preserves_nvcall preserves_modify)
  show ?thesis
    unfolding resize_def by (intro preserves_seq_all) (simp add: tmp inp out)
qed

lemma load_accel: "preserves (\<lambda>_. ()) accel (load ok)"
  unfolding load_def
  by (intro preserves_seq_all) (simp add: preserves_nvcall preserves_modify)

lemma process_accel: "preserves (\<lambda>_. ()) accel (process ok inp)"
proof -
  have "preserves (\<lambda>_. ()) accel (\<lambda>a. if fx_dirty a then load ok a else return_p () a)"
    by (intro preserves_if load_accel preserves_return)
  moreover have "preserves (\<lambda>_. ()) accel (\<lambda>a::background_removal. (Inr (fx_output a), a, []))"
    by (simp add: preserves_def)
  ultimately show ?thesis
    unfolding process_def
    by (intro preserves_then preserves_seq_all)
      (simp_all add: resize_accel preserves_emit preserves_modify preserves_nvcall)
qed


subsection \<open>The adapter at work does not end the process\<close>

text \<open>
  No destructor runs in \<open>resize\<close>, \<open>load\<close> and \<open>process\<close>: a call that fails there
  throws an exception that a caller can catch.
\<close>

lemma texture_free_catchable: "catchable (texture_free ok r)"
  unfolding texture_free_def
  by (intro catchable_seq_all) (simp add: catchable_nvcall)

lemma texture_alloc_catchable: "catchable (texture_alloc ok r)"
  unfolding texture_alloc_def
  by (intro catchable_seq_all) (simp add: catchable_nvcall)

lemma gs_texture_new_catchable: "catchable (gs_texture_new ok r w h fmt)"
  by (simp add: catchable_def gs_texture_new_def)

lemma texture_new_catchable: "catchable (texture_new ok r w h fmt)"
  unfolding texture_new_def
  by (intro catchable_bind catchable_then gs_texture_new_catchable texture_alloc_catchable
      catchable_return)

lemma texture_resize_catchable: "catchable (texture_resize ok r w h)"
  unfolding texture_resize_def
  by (intro catchable_seq_all)
    (simp add: catchable_emit texture_free_catchable texture_alloc_catchable,
     simp add: catchable_def gs_texture_new_def)

lemma image_new_catchable: "catchable (image_new ok r w h)"
  by (simp add: catchable_def image_new_def)

lemma image_resize_catchable: "catchable (image_resize ok r w h)"
  by (simp add: catchable_def image_resize_def)

lemma resize_or_create_catchable:
  assumes "catchable rs" and "catchable mk"
  shows "catchable (resize_or_create rd wr rs mk)"
proof -
  have "fst (resize_or_create rd wr rs mk s) \<noteq> Inl Std_terminate" for s
  proof (cases "rd s")
    case None
    obtain r s1 t where mk: "mk s = (r, s1, t)" by (cases "mk s")
    with assms(2) have "r \<noteq> Inl Std_terminate" by (auto dest: catchableD)
    with None mk show ?thesis by (cases r) (simp_all add: resize_or_create_def)
  next
    case (Some b)
    obtain r b1 t where rs: "rs b = (r, b1, t)" by (cases "rs b")
    with assms(1) have "r \<noteq> Inl Std_terminate" by (auto dest: catchableD)
    with Some rs show ?thesis by (simp add: resize_or_create_def)
  qed
  then show ?thesis by (simp add: catchable_def)
qed

lemma resize_catchable: "catchable (resize ok w h)"
proof -
  have tmp: "catchable (resize_tmp ok w h)"
    unfolding resize_tmp_def
    by (intro catchable_if catchable_bind image_new_catchable catchable_modify catchable_return)
  have inp: "catchable (resize_input ok w h)"
    unfolding resize_input_def
    by (intro catchable_if catchable_seq_all catchable_return)
      (simp add: resize_or_create_catchable texture_resize_catchable texture_new_catchable
        image_resize_catchable image_new_catchable catchable_nvcall catchable_modify)
  have out: "catchable (resize_output ok w h)"
    unfolding resize_output_def
    by (intro catchable_if catchable_seq_all catchable_return)
      (simp add: resize_or_create_catchable texture_resize_catchable texture_new_catchable
        image_resize_catchable image_new_catchable catchable_nvcall catchable_modify)
  show ?thesis
    unfolding resize_def by (intro catchable_seq_all) (simp add: tmp inp out)
qed

lemma load_catchable: "catchable (load ok)"
  unfolding load_def
  by (intro catchable_seq_all) (simp add: catchable_nvcall catchable_modify)

lemma process_catchable: "catchable (process ok inp)"
proof -
  have "catchable (\<lambda>a. if fx_dirty a then load ok a else return_p () a)"
    by (intro catchable_if load_catchable catchable_return)
  moreover have "catchable (\<lambda>a::background_removal. (Inr (fx_output a), a, []))"
    by (simp add: catchable_def)
  ultimately show ?thesis
    unfolding process_def
    by (intro catchable_then catchable_seq_all)
      (simp_all add: resize_catchable catchable_emit catchable_modify catchable_nvcall)
qed

subsection \<open>The blocks of \<open>video_render\<close>\<close>

lemma capture_eq:
  "capture ok h s =
     (if filter_begin h
      then if ok (Render Input_rt (fst (in_size s)) (snd (in_size s)))
        then (Inr True,
              s\<lparr>input := (rt_begin (fst (in_size s)) (snd (in_size s)) (input s))
                            \<lparr>tex_pixels := Upstream (upstream h)\<rparr>\<rparr>,
              [Process_filter_begin, Render Input_rt (fst (in_size s)) (snd (in_size s)),
               Process_filter_end])
        else (Inl (Runtime_error ''gs::rendertarget''), s,
              [Process_filter_begin, Render Input_rt (fst (in_size s)) (snd (in_size s))])
      else (Inr False, s, [Process_filter_begin, Skip_video_filter]))"
  by (simp add: capture_def host_call_def prog_defs)

lemma mask_pass_eq:
  "mask_pass ok h m s =
     (if ok (Render Masked_rt (base_width h) (base_height h))
      then if ok Effect_loop_mask
        then (Inr (),
              s\<lparr>masked := (rt_begin (base_width h) (base_height h) (masked s))
                             \<lparr>tex_pixels := Channel_mask (tex_pixels (input s)) (tex_pixels m)\<rparr>\<rparr>,
              [Render Masked_rt (base_width h) (base_height h), Effect_loop_mask])
        else (Inl (Runtime_error ''gs::effect''),
              s\<lparr>masked := rt_begin (base_width h) (base_height h) (masked s)\<rparr>,
              [Render Masked_rt (base_width h) (base_height h), Effect_loop_mask])
      else (Inl (Runtime_error ''gs::rendertarget''), s,
            [Render Masked_rt (base_width h) (base_height h)]))"
  by (simp add: mask_pass_def host_call_def prog_defs)

lemma nvidia_process_frame:
  assumes "nvidia_process ok s = (r, s1, t)"
  shows "dirty s1 = dirty s \<and> masked s1 = masked s \<and> provider s1 = provider s
    \<and> provider_ready s1 = provider_ready s \<and> out_size s1 = out_size s
    \<and> in_size s1 = in_size s \<and> input s1 = input s \<and> provider_task s1 = provider_task s
    \<and> (nvidia_fx s1 = None) = (nvidia_fx s = None) \<and> list_all (\<lambda>e. \<not> filter_event e) t
    \<and> r \<noteq> Inl Std_terminate"
proof (cases "nvidia_fx s")
  case None
  with assms show ?thesis by (auto simp add: nvidia_process_def)
next
  case (Some a)
  obtain rp a1 tp where p: "process ok (input s) a = (rp, a1, tp)"
    by (cases "process ok (input s) a")
  then have "list_all (\<lambda>e. \<not> filter_event e) tp"
    using preservesD [OF process_accel] by blast
  moreover from p have "rp \<noteq> Inl Std_terminate"
    by (rule catchableD [OF process_catchable])
  ultimately show ?thesis
    using assms Some p by (cases rp) (auto simp add: nvidia_process_def)
qed

lemma provider_process_frame:
  assumes "provider_process ok s = (r, s1, t)"
  shows "dirty s1 = dirty s \<and> masked s1 = masked s \<and> provider s1 = provider s
    \<and> provider_ready s1 = provider_ready s \<and> out_size s1 = out_size s
    \<and> in_size s1 = in_size s \<and> input s1 = input s \<and> provider_task s1 = provider_task s
    \<and> (nvidia_fx s1 = None) = (nvidia_fx s = None) \<and> list_all (\<lambda>e. \<not> filter_event e) t
    \<and> r \<noteq> Inl Std_terminate"
proof (cases "provider s = NVIDIA_GREEN_SCREEN")
  case True
  with assms have "nvidia_process ok s = (r, s1, t)"
    by (simp add: provider_process_def)
  then show ?thesis by (rule nvidia_process_frame)
next
  case False
  with assms show ?thesis
    by (auto simp add: provider_process_def modify_def)
qed

text \<open>Without the NVIDIA provider the process step returns no result.\<close>

lemma provider_process_no_result:
  "provider s \<noteq> NVIDIA_GREEN_SCREEN \<Longrightarrow>
   provider_process ok s = (Inr (), s\<lparr>mask_tex := None\<rparr>, [])"
  by (simp add: provider_process_def modify_def)

lemma recompute_eq:
  "recompute ok h s =
     (case capture ok h s of
        (Inl e, sc, tc) \<Rightarrow> (Inl e, sc, tc)
      | (Inr False, sc, tc) \<Rightarrow> (Inr False, sc, tc)
      | (Inr True, sc, tc) \<Rightarrow>
          (case provider_process ok sc of
             (Inl e, sp, tp) \<Rightarrow>
               (if e = Std_terminate then (Inl e, sp, tc @ tp)
                else (Inr False, sp, tc @ tp @ [Skip_video_filter]))
           | (Inr _, sp, tp) \<Rightarrow>
               (case mask_tex sp of
                  None \<Rightarrow>
                    (if listed (provider sp)
                     then (Inr False, sp,
                           tc @ tp @ [Log Log_error Filter_background_removal
                                        ''Provider '%s' did not return a result.'',
                                      Skip_video_filter])
                     else (Inl (Runtime_error ''Missing Conversion Entry''), sp, tc @ tp))
                | Some m \<Rightarrow>
                    (case mask_pass ok h m sp of
                       (Inl e, sm, tm) \<Rightarrow>
                         (if e = Std_terminate then (Inl e, sm, tc @ tp @ tm)
                          else (Inr False, sm, tc @ tp @ tm @ [Skip_video_filter]))
                     | (Inr _, sm, tm) \<Rightarrow> (Inr True, sm\<lparr>dirty := False\<rparr>, tc @ tp @ tm)))))"
  by (simp add: recompute_def log_cstring_eq prog_defs
      split: prod.splits sum.splits option.splits bool.splits)

lemma video_render_eq:
  assumes "provider_ready s" and "render_target h \<noteq> None"
    and "base_width h \<noteq> 0" and "base_height h \<noteq> 0"
  shows "video_render ok h s =
     (if dirty s
      then (case recompute ok h s of
              (Inl e, s1, t) \<Rightarrow> (Inl e, s1, t)
            | (Inr False, s1, t) \<Rightarrow> (Inr (), s1, t)
            | (Inr True, s1, t) \<Rightarrow>
                (Inr (), s1, t @ [Draw_sprite (masked s1) (fst (out_size s1)) (snd (out_size s1))]))
      else (Inr (), s, [Draw_sprite (masked s) (fst (out_size s)) (snd (out_size s))]))"
  using assms
  by (auto simp add: video_render_def present_def prog_defs
      split: prod.splits sum.splits bool.splits)


lemma capture_frame:
  assumes "capture ok h s = (r, s1, t)"
  shows "dirty s1 = dirty s \<and> masked s1 = masked s \<and> provider s1 = provider s
    \<and> provider_ready s1 = provider_ready s \<and> out_size s1 = out_size s
    \<and> nvidia_fx s1 = nvidia_fx s \<and> list_all (\<lambda>e. \<not> is_draw e \<and> \<not> is_filter_log e) t"
  using assms by (auto simp add: capture_eq split: if_splits)

lemma accel_not_draw:
  "list_all (\<lambda>e. \<not> filter_event e) t \<Longrightarrow> list_all (\<lambda>e. \<not> is_draw e \<and> \<not> is_filter_log e) t"
proof (induction t)
  case Nil
  then show ?case by simp
next
  case (Cons e t)
  then show ?case by (cases e) simp_all
qed

text \<open>
  C5, amended.  Take a render call that reaches the process step (provider ready, a
  target of non-zero size, the dirty flag set, the frame captured), the active provider
  being one of the enumerators, and let the step throw or return no result.  The call
  returns normally after telling the host to skip the filter, and draws nothing.  Before
  the skip the filter logs an error when there is no result, and logs nothing when the
  step threw; the events of the step itself are the adapter's, whatever they are.  The
  cached texture, the dirty flag (still set, so that the next render call processes
  again), the active provider, its readiness and the presence of the adapter are as
  before the call.
\<close>

theorem no_result_skips_frame:
  assumes "provider_ready s" and "render_target h \<noteq> None"
    and "base_width h \<noteq> 0" and "base_height h \<noteq> 0" and "dirty s"
    and "listed (provider s)"
    and "capture ok h s = (Inr True, s1, t1)"
    and "provider_process ok s1 = (r2, s2, t2)"
    and "r2 = Inr () \<longrightarrow> mask_tex s2 = None"
  shows "video_render ok h s =
      (Inr (), s2,
       t1 @ t2 @ (if r2 = Inr ()
                  then [Log Log_error Filter_background_removal
                          ''Provider '%s' did not return a result.'', Skip_video_filter]
                  else [Skip_video_filter]))
    \<and> filter is_draw (t1 @ t2) = [] \<and> filter is_filter_log (t1 @ t2) = []
    \<and> masked s2 = masked s \<and> dirty s2 \<and> provider s2 = provider s \<and> provider_ready s2
    \<and> (nvidia_fx s2 = None) = (nvidia_fx s = None)"
proof -
  from assms(7) have c: "dirty s1 = dirty s" "masked s1 = masked s" "provider s1 = provider s"
    "provider_ready s1 = provider_ready s" "nvidia_fx s1 = nvidia_fx s"
    "list_all (\<lambda>e. \<not> is_draw e \<and> \<not> is_filter_log e) t1"
    using capture_frame by blast+
  from assms(8) have p: "dirty s2 = dirty s1" "masked s2 = masked s1" "provider s2 = provider s1"
    "provider_ready s2 = provider_ready s1" "(nvidia_fx s2 = None) = (nvidia_fx s1 = None)"
    "list_all (\<lambda>e. \<not> filter_event e) t2" "r2 \<noteq> Inl Std_terminate"
    using provider_process_frame by blast+
  have quiet: "filter is_draw (t1 @ t2) = [] \<and> filter is_filter_log (t1 @ t2) = []"
    using c(6) accel_not_draw [OF p(6)] by (auto simp add: filter_empty_conv list_all_iff)
  have l: "listed (provider s2)"
    using assms(6) c(3) p(3) by simp
  have r: "recompute ok h s =
      (Inr False, s2,
       t1 @ t2 @ (if r2 = Inr ()
                  then [Log Log_error Filter_background_removal
                          ''Provider '%s' did not return a result.'', Skip_video_filter]
                  else [Skip_video_filter]))"
    using assms(7, 8, 9) p(7) l by (cases r2) (simp_all add: recompute_eq)
  have "video_render ok h s =
      (Inr (), s2,
       t1 @ t2 @ (if r2 = Inr ()
                  then [Log Log_error Filter_background_removal
                          ''Provider '%s' did not return a result.'', Skip_video_filter]
                  else [Skip_video_filter]))"
    using assms(1-5) r by (simp add: video_render_eq)
  with quiet c p assms(1, 5) show ?thesis by simp
qed


subsection \<open>Loading and unloading\<close>

lemma delete_background_removal_accel:
  "preserves (\<lambda>s. s) (\<lambda>e. \<not> filter_event e) (delete_background_removal ok a)"
  unfolding delete_background_removal_def
  by (intro preserves_seq_all)
    (simp add: preserves_emit preserves_return texture_delete_accel split: option.splits)

lemma release_accel: "preserves (\<lambda>s. s) (\<lambda>e. \<not> filter_event e) (release ok x)"
  by (cases x) (simp_all add: preserves_return delete_background_removal_accel)

lemma unwind_background_removal_accel:
  "preserves (\<lambda>s. s) (\<lambda>e. \<not> filter_event e) (unwind_background_removal ok a)"
  unfolding unwind_background_removal_def
  by (intro preserves_seq_all)
    (simp add: preserves_emit preserves_return texture_delete_accel split: option.splits)

lemma construct_background_removal_accel:
  "list_all (\<lambda>e. \<not> filter_event e) (snd (snd (construct_background_removal ok)))"
proof -
  have "preserves (\<lambda>_. ()) (\<lambda>e. \<not> filter_event e)
     (seq_all
       [nvcall ok Vfx_background_removal NvVFX_CreateEffect
          ''Failed to create effect due to error: %s'' ''CreateEffect failed.'',
        nvcall ok Vfx_background_removal NvVFX_SetCudaStream
          ''Failed to set CUDA stream due to error: %s'' ''SetCudaStream failed.'',
        nvcall ok Vfx_background_removal NvVFX_SetString
          ''Failed to set model directory due to error: %s'' ''SetString failed.'',
        resize ok 160 90,
        load ok])"
    by (intro preserves_seq_all) (simp add: preserves_nvcall resize_accel load_accel)
  then show ?thesis
    by (simp add: preserves_def construct_background_removal_def)
qed

lemma new_background_removal_state_construct:
  "fst (snd (new_background_removal ok)) = fst (snd (construct_background_removal ok))"
  by (simp add: new_background_removal_def split: prod.splits sum.splits)

lemma new_background_removal_accel:
  "list_all (\<lambda>e. \<not> filter_event e) (snd (snd (new_background_removal ok)))"
proof -
  obtain rc a tc where c: "construct_background_removal ok = (rc, a, tc)"
    by (cases "construct_background_removal ok")
  have tc: "list_all (\<lambda>e. \<not> filter_event e) tc"
    using construct_background_removal_accel [of ok] by (simp add: c)
  obtain ru au tu where u: "unwind_background_removal ok a a = (ru, au, tu)"
    by (cases "unwind_background_removal ok a a")
  have tu: "list_all (\<lambda>e. \<not> filter_event e) tu"
    using preservesD [OF unwind_background_removal_accel u] by simp
  show ?thesis
    using tc tu by (cases rc; cases ru) (simp_all add: new_background_removal_def c u)
qed

lemma frame_fields:
  assumes "s1\<lparr>nvidia_fx := x\<rparr> = s"
  shows "dirty s1 = dirty s \<and> provider s1 = provider s \<and> provider_ready s1 = provider_ready s
    \<and> masked s1 = masked s \<and> out_size s1 = out_size s \<and> provider_task s1 = provider_task s"
proof -
  have "dirty (s1\<lparr>nvidia_fx := x\<rparr>) = dirty s" "provider (s1\<lparr>nvidia_fx := x\<rparr>) = provider s"
    "provider_ready (s1\<lparr>nvidia_fx := x\<rparr>) = provider_ready s"
    "masked (s1\<lparr>nvidia_fx := x\<rparr>) = masked s" "out_size (s1\<lparr>nvidia_fx := x\<rparr>) = out_size s"
    "provider_task (s1\<lparr>nvidia_fx := x\<rparr>) = provider_task s"
    using assms by simp_all
  then show ?thesis by simp
qed

lemma nvidia_unload_frame:
  assumes "nvidia_unload ok s = (r, s1, t)"
  shows "s1\<lparr>nvidia_fx := nvidia_fx s\<rparr> = s \<and> list_all (\<lambda>e. \<not> filter_event e) t"
  using assms preservesD [OF release_accel, of ok "nvidia_fx s" "s\<lparr>nvidia_fx := None\<rparr>" r s1 t]
  by (simp add: nvidia_unload_def)

lemma nvidia_load_frame:
  assumes "nvidia_load ok s = (r, s1, t)"
  shows "s1\<lparr>nvidia_fx := nvidia_fx s\<rparr> = s \<and> list_all (\<lambda>e. \<not> filter_event e) t"
proof -
  obtain rn a tn where n: "new_background_removal ok = (rn, a, tn)"
    by (cases "new_background_removal ok")
  have tn: "list_all (\<lambda>e. \<not> filter_event e) tn"
    using new_background_removal_accel [of ok] by (simp add: n)
  show ?thesis
  proof (cases rn)
    case (Inl e)
    have "nvidia_load ok s = (Inl e, s, tn)"
      by (simp add: nvidia_load_def n Inl)
    with assms have "s1 = s" "t = tn" by simp_all
    with tn show ?thesis by simp
  next
    case (Inr u)
    obtain rr sr tr where rel: "release ok (nvidia_fx s) (s\<lparr>nvidia_fx := Some a\<rparr>) = (rr, sr, tr)"
      by (cases "release ok (nvidia_fx s) (s\<lparr>nvidia_fx := Some a\<rparr>)")
    have fr: "sr = s\<lparr>nvidia_fx := Some a\<rparr> \<and> list_all (\<lambda>e. \<not> filter_event e) tr"
      by (rule preservesD [OF release_accel rel])
    have "nvidia_load ok s = (rr, sr, tn @ tr)"
      by (simp add: nvidia_load_def n Inr rel)
    with assms have "s1 = sr" "t = tn @ tr" by simp_all
    with fr tn show ?thesis by simp
  qed
qed

lemma task_unload_frame:
  assumes "task_unload ok spd s = (r, s1, t)"
  shows "s1\<lparr>nvidia_fx := nvidia_fx s\<rparr> = s \<and> list_all (\<lambda>e. \<not> filter_event e) t"
proof (cases "spd_provider spd = NVIDIA_GREEN_SCREEN")
  case True
  with assms have "nvidia_unload ok s = (r, s1, t)" by (simp add: task_unload_def)
  then show ?thesis by (rule nvidia_unload_frame)
next
  case False
  with assms show ?thesis by (auto simp add: task_unload_def return_p_def)
qed

lemma task_load_frame:
  assumes "task_load ok s = (r, s1, t)"
  shows "s1\<lparr>nvidia_fx := nvidia_fx s\<rparr> = s \<and> list_all (\<lambda>e. \<not> filter_event e) t"
proof (cases "provider s = NVIDIA_GREEN_SCREEN")
  case True
  with assms have "nvidia_load ok s = (r, s1, t)" by (simp add: task_load_def)
  then show ?thesis by (rule nvidia_load_frame)
next
  case False
  with assms show ?thesis by (auto simp add: task_load_def return_p_def)
qed

lemma task_switch_provider_eq:
  "task_switch_provider ok spd s =
     (case task_unload ok spd (s\<lparr>provider_ready := False\<rparr>) of
        (Inl e, s2, t2) \<Rightarrow>
          (if e = Std_terminate then (Inl e, s2, t2)
           else (Inr (), s2,
                 t2 @ [Log Log_error Filter_background_removal
                         ''Instance '%s' failed switching provider with error: %s'']))
      | (Inr _, s2, t2) \<Rightarrow>
          (case task_load ok s2 of
             (Inl e, s3, t3) \<Rightarrow>
               (if e = Std_terminate then (Inl e, s3, t2 @ t3)
                else (Inr (), s3,
                      t2 @ t3 @ [Log Log_error Filter_background_removal
                                   ''Instance '%s' failed switching provider with error: %s'']))
           | (Inr _, s3, t3) \<Rightarrow>
               (if listed (spd_provider spd) \<and> listed (provider s3)
                then (Inr (), s3\<lparr>provider_ready := True\<rparr>,
                      t2 @ t3 @ [Log Log_info Filter_background_removal
                                   ''Instance '%s' switched provider from '%s' to '%s'.''])
                else (Inr (), s3,
                      t2 @ t3 @ [Log Log_error Filter_background_removal
                                   ''Instance '%s' failed switching provider with error: %s'']))))"
  by (auto simp add: task_switch_provider_def task_mark_not_ready_def task_try_block_def
      log_cstring_eq prog_defs split: prod.splits sum.splits)


text \<open>
  \<open>unloaded_instance\<close> is reached from \<open>loaded_instance\<close>: a switch to no provider is
  requested and the task that was pushed runs.
\<close>

lemma unloaded_instance_reached:
  "fst (snd (bind_p (switch_provider INVALID)
       (\<lambda>_. task_switch_provider all_ok \<lparr>spd_provider = NVIDIA_GREEN_SCREEN\<rparr>) loaded_instance))
   = unloaded_instance"
  by (simp add: switch_provider_def task_switch_provider_eq task_unload_def task_load_def
      nvidia_unload_def delete_background_removal_def texture_delete_def noexcept_p_def
      texture_free_def nvcall_def log_cstring_eq listed_def
      loaded_instance_def unloaded_instance_def new_instance_def loaded_fx_def all_ok_def
      prog_defs)

text \<open>
  The switch task in general.  It returns normally unless a destructor ended the
  process.  When it returns, \<open>provider_ready\<close> holds exactly if unloading the old
  provider and then loading the new one both completed without an exception (and the line
  that reports the switch could be written); otherwise \<open>provider_ready\<close> is false, the
  failure has been logged as an error of the filter, and every render call on the
  resulting instance only skips the filter.  When the process ended, the filter has logged
  nothing.
\<close>

lemma switch_task_outcome:
  assumes "task_switch_provider ok spd s = (r, s1, t)"
  shows "(r = Inr () \<or> r = Inl Std_terminate)
    \<and> provider_ready s1 =
        (\<exists>s2 t2 s3 t3. task_unload ok spd (s\<lparr>provider_ready := False\<rparr>) = (Inr (), s2, t2)
           \<and> task_load ok s2 = (Inr (), s3, t3)
           \<and> listed (spd_provider spd) \<and> listed (provider s))
    \<and> (r = Inr () \<and> \<not> provider_ready s1 \<longrightarrow>
          Log Log_error Filter_background_removal
            ''Instance '%s' failed switching provider with error: %s'' \<in> set t
          \<and> video_render ok1 h s1 = (Inr (), s1, [Skip_video_filter]))
    \<and> (r = Inl Std_terminate \<longrightarrow> \<not> provider_ready s1 \<and> filter is_filter_log t = [])
    \<and> (provider_ready s1 \<longrightarrow> filter is_filter_log t =
          [Log Log_info Filter_background_removal
             ''Instance '%s' switched provider from '%s' to '%s'.''])"
proof -
  obtain ru s2 t2 where u: "task_unload ok spd (s\<lparr>provider_ready := False\<rparr>) = (ru, s2, t2)"
    by (cases "task_unload ok spd (s\<lparr>provider_ready := False\<rparr>)")
  from task_unload_frame [OF u]
  have fu: "s2\<lparr>nvidia_fx := nvidia_fx (s\<lparr>provider_ready := False\<rparr>)\<rparr> = s\<lparr>provider_ready := False\<rparr>"
    and tu: "list_all (\<lambda>e. \<not> filter_event e) t2" by simp_all
  from frame_fields [OF fu] have r2: "\<not> provider_ready s2" and p2: "provider s2 = provider s"
    by simp_all
  have lu: "filter is_filter_log t2 = []"
    using accel_not_draw [OF tu] by (auto simp add: filter_empty_conv list_all_iff)
  show ?thesis
  proof (cases ru)
    case (Inl e)
    show ?thesis
    proof (cases "e = Std_terminate")
      case True
      with Inl u assms have "r = Inl Std_terminate" "s1 = s2" "t = t2"
        by (simp_all add: task_switch_provider_eq)
      with r2 u Inl lu show ?thesis by simp
    next
      case False
      with Inl u assms have res: "r = Inr ()" "s1 = s2"
        "t = t2 @ [Log Log_error Filter_background_removal
                     ''Instance '%s' failed switching provider with error: %s'']"
        by (simp_all add: task_switch_provider_eq)
      with r2 u Inl show ?thesis
        by (simp add: video_render_def emit_def)
    qed
  next
    case (Inr x)
    obtain rl s3 t3 where l: "task_load ok s2 = (rl, s3, t3)"
      by (cases "task_load ok s2")
    from task_load_frame [OF l]
    have fl: "s3\<lparr>nvidia_fx := nvidia_fx s2\<rparr> = s2"
      and tl: "list_all (\<lambda>e. \<not> filter_event e) t3" by simp_all
    from frame_fields [OF fl] r2 p2 have r3: "\<not> provider_ready s3"
      and p3: "provider s3 = provider s" by simp_all
    have ll: "filter is_filter_log t3 = []"
      using accel_not_draw [OF tl] by (auto simp add: filter_empty_conv list_all_iff)
    show ?thesis
    proof (cases rl)
      case (Inl e)
      show ?thesis
      proof (cases "e = Std_terminate")
        case True
        with Inl u Inr l assms have "r = Inl Std_terminate" "s1 = s3" "t = t2 @ t3"
          by (simp_all add: task_switch_provider_eq)
        with r3 u Inr l Inl lu ll show ?thesis by simp
      next
        case False
        with Inl u Inr l assms have res: "r = Inr ()" "s1 = s3"
          "t = t2 @ t3 @ [Log Log_error Filter_background_removal
                            ''Instance '%s' failed switching provider with error: %s'']"
          by (simp_all add: task_switch_provider_eq)
        with r3 u Inr l Inl show ?thesis
          by (simp add: video_render_def emit_def)
      qed
    next
      case (Inr y)
      show ?thesis
      proof (cases "listed (spd_provider spd) \<and> listed (provider s)")
        case True
        with u \<open>ru = Inr x\<close> l Inr p3 assms have res: "r = Inr ()"
          "s1 = s3\<lparr>provider_ready := True\<rparr>"
          "t = t2 @ t3 @ [Log Log_info Filter_background_removal
                            ''Instance '%s' switched provider from '%s' to '%s'.'']"
          by (simp_all add: task_switch_provider_eq)
        with u \<open>ru = Inr x\<close> l Inr lu ll True show ?thesis
          by simp
      next
        case False
        with u \<open>ru = Inr x\<close> l Inr p3 assms have res: "r = Inr ()" "s1 = s3"
          "t = t2 @ t3 @ [Log Log_error Filter_background_removal
                            ''Instance '%s' failed switching provider with error: %s'']"
          by (auto simp add: task_switch_provider_eq)
        with r3 False show ?thesis
          by (simp add: video_render_def emit_def)
      qed
    qed
  qed
qed

text \<open>
  C2.  Let the pipeline leave the loaded NVIDIA provider: \<open>switch_provider\<close> is asked for
  no provider, and the task it pushed runs while the accelerator refuses to unmap the
  adapter's input texture.  Unloading is the adapter's destructor; the texture's
  destructor throws inside it, and the process ends there.  The handler of the task does
  not run: the filter logs no error (the only log line is the texture's), the task does
  not return, and no pipeline is left to behave as if there were no provider.
\<close>

theorem switch_task_unload_failure_terminates:
  "task_switch_provider unmap_fails \<lparr>spd_provider = NVIDIA_GREEN_SCREEN\<rparr>
     (fst (snd (switch_provider INVALID loaded_instance)))
   = (Inl Std_terminate,
      loaded_instance\<lparr>provider := INVALID,
                       provider_task := Some \<lparr>spd_provider = NVIDIA_GREEN_SCREEN\<rparr>,
                       provider_ready := False, nvidia_fx := None\<rparr>,
      [NvVFX_DestroyEffect, NvCVImage_UnmapResource Input,
       Log Log_error Cv_texture ''Object failed NvCVImage_UnmapResource call''])
   \<and> filter is_filter_log
       (snd (snd (task_switch_provider unmap_fails \<lparr>spd_provider = NVIDIA_GREEN_SCREEN\<rparr>
          (fst (snd (switch_provider INVALID loaded_instance)))))) = []"
proof -
  have sw: "fst (snd (switch_provider INVALID loaded_instance)) =
      loaded_instance\<lparr>provider := INVALID,
                       provider_task := Some \<lparr>spd_provider = NVIDIA_GREEN_SCREEN\<rparr>\<rparr>"
    by (simp add: switch_provider_def log_cstring_eq listed_def loaded_instance_def
        new_instance_def prog_defs)
  have "task_switch_provider unmap_fails \<lparr>spd_provider = NVIDIA_GREEN_SCREEN\<rparr>
      (loaded_instance\<lparr>provider := INVALID,
                       provider_task := Some \<lparr>spd_provider = NVIDIA_GREEN_SCREEN\<rparr>\<rparr>)
    = (Inl Std_terminate,
       loaded_instance\<lparr>provider := INVALID,
                        provider_task := Some \<lparr>spd_provider = NVIDIA_GREEN_SCREEN\<rparr>,
                        provider_ready := False, nvidia_fx := None\<rparr>,
       [NvVFX_DestroyEffect, NvCVImage_UnmapResource Input,
        Log Log_error Cv_texture ''Object failed NvCVImage_UnmapResource call''])"
    by (simp add: task_switch_provider_eq task_unload_def nvidia_unload_def
        delete_background_removal_def texture_delete_def noexcept_p_def texture_free_def
        nvcall_def unmap_fails_def loaded_instance_def new_instance_def loaded_fx_def
        prog_defs)
  with sw show ?thesis by simp
qed



lemmas run_defs =
  video_tick_def nvidia_size_def size_fx_def video_render_def recompute_def capture_def
  provider_process_def nvidia_process_def process_def resize_def resize_tmp_def resize_input_def
  resize_output_def input_size_changed_def output_size_changed_def load_def mask_pass_def
  present_def render_target_def rt_begin_def host_call_def nvcall_def
  loaded_instance_def unloaded_instance_def new_instance_def loaded_fx_def rt_1x1_def
  host_160x90_def all_ok_def run_fails_def log_cstring_eq listed_def prog_defs

lemma capture_ticked:
  "capture ok host_160x90 (video_tick host_160x90 loaded_instance) =
     (if ok (Render Input_rt 160 90)
      then (Inr True,
            (video_tick host_160x90 loaded_instance)
              \<lparr>input := \<lparr>tex_width = 160, tex_height = 90, tex_format = GS_RGBA_UNORM,
                         tex_pixels = Upstream 7\<rparr>\<rparr>,
            [Process_filter_begin, Render Input_rt 160 90, Process_filter_end])
      else (Inl (Runtime_error ''gs::rendertarget''), video_tick host_160x90 loaded_instance,
            [Process_filter_begin, Render Input_rt 160 90]))"
  by (simp add: capture_eq video_tick_def nvidia_size_def size_fx_def loaded_instance_def
      new_instance_def rt_1x1_def host_160x90_def rt_begin_def Let_def)

lemma render_ticked_run_fails:
  "video_render run_fails host_160x90 (video_tick host_160x90 loaded_instance) =
     (Inr (),
      (video_tick host_160x90 loaded_instance)
        \<lparr>input := \<lparr>tex_width = 160, tex_height = 90, tex_format = GS_RGBA_UNORM,
                   tex_pixels = Upstream 7\<rparr>,
         nvidia_fx := Some (loaded_fx
           \<lparr>fx_input := Some \<lparr>tex_width = 160, tex_height = 90, tex_format = GS_RGBA_UNORM,
                              tex_pixels = Upstream 7\<rparr>\<rparr>)\<rparr>,
      [Process_filter_begin, Render Input_rt 160 90, Process_filter_end,
       Gs_copy_texture, NvCVImage_Transfer Input Source, NvVFX_Run,
       Log Log_error Vfx_background_removal ''Failed to process due to error: %s'',
       Skip_video_filter])"
  by (simp add: run_defs Let_def)


lemma capture_ticked_1280x720:
  "capture create_fails host_1280x720 (video_tick host_1280x720 loaded_instance) =
     (Inr True,
      (video_tick host_1280x720 loaded_instance)
        \<lparr>input := \<lparr>tex_width = 1280, tex_height = 720, tex_format = GS_RGBA_UNORM,
                   tex_pixels = Upstream 7\<rparr>\<rparr>,
      [Process_filter_begin, Render Input_rt 1280 720, Process_filter_end])"
  by (simp add: capture_eq video_tick_def nvidia_size_def size_fx_def loaded_instance_def
      new_instance_def rt_1x1_def host_1280x720_def rt_begin_def create_fails_def Let_def)

lemma texture_resize_create_fails:
  "texture_resize create_fails Input 1280 720
     \<lparr>tex_width = 160, tex_height = 90, tex_format = GS_RGBA_UNORM, tex_pixels = Blank\<rparr> =
     (Inl (Runtime_error ''gs::texture''),
      \<lparr>tex_width = 160, tex_height = 90, tex_format = GS_RGBA_UNORM, tex_pixels = Blank\<rparr>,
      [Log Log_debug Cv_texture ''Resizing object...'',
       NvCVImage_UnmapResource Input, NvCVImage_Dealloc Input,
       Gs_texture_create Input 1280 720 GS_RGBA_UNORM])"
  by (simp add: texture_resize_def texture_free_def gs_texture_new_def nvcall_def
      create_fails_def prog_defs)

lemma process_create_fails:
  "process create_fails
     \<lparr>tex_width = 1280, tex_height = 720, tex_format = GS_RGBA_UNORM, tex_pixels = Upstream 7\<rparr>
     loaded_fx =
     (Inl (Runtime_error ''gs::texture''), loaded_fx,
      [Log Log_debug Cv_texture ''Resizing object...'',
       NvCVImage_UnmapResource Input, NvCVImage_Dealloc Input,
       Gs_texture_create Input 1280 720 GS_RGBA_UNORM])"
proof -
  have "resize_input create_fails 1280 720 loaded_fx =
     (Inl (Runtime_error ''gs::texture''), loaded_fx,
      [Log Log_debug Cv_texture ''Resizing object...'',
       NvCVImage_UnmapResource Input, NvCVImage_Dealloc Input,
       Gs_texture_create Input 1280 720 GS_RGBA_UNORM])"
    by (simp add: resize_input_def input_size_changed_def resize_or_create_def
        texture_resize_create_fails loaded_fx_def prog_defs)
  then have "resize create_fails 1280 720 loaded_fx =
     (Inl (Runtime_error ''gs::texture''), loaded_fx,
      [Log Log_debug Cv_texture ''Resizing object...'',
       NvCVImage_UnmapResource Input, NvCVImage_Dealloc Input,
       Gs_texture_create Input 1280 720 GS_RGBA_UNORM])"
    by (simp add: resize_def resize_tmp_def loaded_fx_def prog_defs)
  then show ?thesis
    by (simp add: process_def prog_defs)
qed

lemma provider_process_create_fails:
  "provider_process create_fails
     ((video_tick host_1280x720 loaded_instance)
        \<lparr>input := \<lparr>tex_width = 1280, tex_height = 720, tex_format = GS_RGBA_UNORM,
                   tex_pixels = Upstream 7\<rparr>\<rparr>) =
     (Inl (Runtime_error ''gs::texture''),
      (video_tick host_1280x720 loaded_instance)
        \<lparr>input := \<lparr>tex_width = 1280, tex_height = 720, tex_format = GS_RGBA_UNORM,
                   tex_pixels = Upstream 7\<rparr>\<rparr>,
      [Log Log_debug Cv_texture ''Resizing object...'',
       NvCVImage_UnmapResource Input, NvCVImage_Dealloc Input,
       Gs_texture_create Input 1280 720 GS_RGBA_UNORM])"
  by (simp add: provider_process_def nvidia_process_def process_create_fails video_tick_def
      nvidia_size_def size_fx_def loaded_instance_def new_instance_def host_1280x720_def
      Let_def)

lemma render_ticked_create_fails:
  "video_render create_fails host_1280x720 (video_tick host_1280x720 loaded_instance) =
     (Inr (),
      (video_tick host_1280x720 loaded_instance)
        \<lparr>input := \<lparr>tex_width = 1280, tex_height = 720, tex_format = GS_RGBA_UNORM,
                   tex_pixels = Upstream 7\<rparr>\<rparr>,
      [Process_filter_begin, Render Input_rt 1280 720, Process_filter_end,
       Log Log_debug Cv_texture ''Resizing object...'',
       NvCVImage_UnmapResource Input, NvCVImage_Dealloc Input,
       Gs_texture_create Input 1280 720 GS_RGBA_UNORM,
       Skip_video_filter])"
proof -
  have s: "provider_ready (video_tick host_1280x720 loaded_instance)"
    "dirty (video_tick host_1280x720 loaded_instance)"
    by (simp_all add: video_tick_def nvidia_size_def size_fx_def loaded_instance_def
        new_instance_def host_1280x720_def Let_def)
  have host: "render_target host_1280x720 \<noteq> None" "base_width host_1280x720 \<noteq> 0"
    "base_height host_1280x720 \<noteq> 0"
    by (simp_all add: render_target_def host_1280x720_def)
  have "recompute create_fails host_1280x720 (video_tick host_1280x720 loaded_instance) =
     (Inr False,
      (video_tick host_1280x720 loaded_instance)
        \<lparr>input := \<lparr>tex_width = 1280, tex_height = 720, tex_format = GS_RGBA_UNORM,
                   tex_pixels = Upstream 7\<rparr>\<rparr>,
      [Process_filter_begin, Render Input_rt 1280 720, Process_filter_end,
       Log Log_debug Cv_texture ''Resizing object...'',
       NvCVImage_UnmapResource Input, NvCVImage_Dealloc Input,
       Gs_texture_create Input 1280 720 GS_RGBA_UNORM,
       Skip_video_filter])"
    by (simp add: recompute_eq capture_ticked_1280x720 provider_process_create_fails)
  with s host show ?thesis
    by (simp add: video_render_eq)
qed

text \<open>
  C5, as the claim states it, fails where the process step throws: the filter catches the
  exception and skips the frame without a log line.  Let the source be 1280 by 720, so
  that the adapter loaded for 160 by 90 resizes its input texture, and let the creation
  of the new graphics texture fail.  The step throws; the render call skips the frame; no
  error has been logged by anyone, and the filter has logged nothing: the only log line
  is the texture's debug line that announces the resize.
\<close>

theorem process_throw_is_not_logged_counterexample:
  "fst (provider_process create_fails
          (fst (snd (capture create_fails host_1280x720
             (video_tick host_1280x720 loaded_instance)))))
     = Inl (Runtime_error ''gs::texture'')
   \<and> snd (snd (video_render create_fails host_1280x720
        (video_tick host_1280x720 loaded_instance)))
     = [Process_filter_begin, Render Input_rt 1280 720, Process_filter_end,
        Log Log_debug Cv_texture ''Resizing object...'',
        NvCVImage_UnmapResource Input, NvCVImage_Dealloc Input,
        Gs_texture_create Input 1280 720 GS_RGBA_UNORM,
        Skip_video_filter]
   \<and> filter is_log
       (snd (snd (video_render create_fails host_1280x720
          (video_tick host_1280x720 loaded_instance))))
     = [Log Log_debug Cv_texture ''Resizing object...'']
   \<and> filter is_filter_log
       (snd (snd (video_render create_fails host_1280x720
          (video_tick host_1280x720 loaded_instance))))
     = []"
  by (simp add: render_ticked_create_fails capture_ticked_1280x720
      provider_process_create_fails)


theorem no_result_skips_frame_witness:
  "video_render run_fails host_160x90 (video_tick host_160x90 loaded_instance) =
     (Inr (),
      (video_tick host_160x90 loaded_instance)
        \<lparr>input := \<lparr>tex_width = 160, tex_height = 90, tex_format = GS_RGBA_UNORM,
                   tex_pixels = Upstream 7\<rparr>,
         nvidia_fx := Some (loaded_fx
           \<lparr>fx_input := Some \<lparr>tex_width = 160, tex_height = 90, tex_format = GS_RGBA_UNORM,
                              tex_pixels = Upstream 7\<rparr>\<rparr>)\<rparr>,
      [Process_filter_begin, Render Input_rt 160 90, Process_filter_end,
       Gs_copy_texture, NvCVImage_Transfer Input Source, NvVFX_Run,
       Log Log_error Vfx_background_removal ''Failed to process due to error: %s'',
       Skip_video_filter])
   \<and> video_render create_fails host_1280x720 (video_tick host_1280x720 loaded_instance) =
     (Inr (),
      (video_tick host_1280x720 loaded_instance)
        \<lparr>input := \<lparr>tex_width = 1280, tex_height = 720, tex_format = GS_RGBA_UNORM,
                   tex_pixels = Upstream 7\<rparr>\<rparr>,
      [Process_filter_begin, Render Input_rt 1280 720, Process_filter_end,
       Log Log_debug Cv_texture ''Resizing object...'',
       NvCVImage_UnmapResource Input, NvCVImage_Dealloc Input,
       Gs_texture_create Input 1280 720 GS_RGBA_UNORM,
       Skip_video_filter])
   \<and> video_render all_ok host_160x90 (video_tick host_160x90 unloaded_instance) =
     (Inr (),
      (video_tick host_160x90 unloaded_instance)
        \<lparr>input := \<lparr>tex_width = 160, tex_height = 90, tex_format = GS_RGBA_UNORM,
                   tex_pixels = Upstream 7\<rparr>,
         mask_tex := None\<rparr>,
      [Process_filter_begin, Render Input_rt 160 90, Process_filter_end,
       Log Log_error Filter_background_removal ''Provider '%s' did not return a result.'',
       Skip_video_filter])"
proof -
  let ?tex = "\<lparr>tex_width = 160, tex_height = 90, tex_format = GS_RGBA_UNORM,
                tex_pixels = Upstream 7\<rparr>"
  let ?big = "\<lparr>tex_width = 1280, tex_height = 720, tex_format = GS_RGBA_UNORM,
                tex_pixels = Upstream 7\<rparr>"
  let ?s = "video_tick host_160x90 loaded_instance"
  let ?b = "video_tick host_1280x720 loaded_instance"
  let ?u = "video_tick host_160x90 unloaded_instance"
  have host: "render_target host_160x90 \<noteq> None" "base_width host_160x90 \<noteq> 0"
    "base_height host_160x90 \<noteq> 0"
    by (simp_all add: render_target_def host_160x90_def)
  have s: "provider_ready ?s" "dirty ?s" "listed (provider ?s)"
    by (simp_all add: run_defs Let_def)
  have sc: "capture run_fails host_160x90 ?s =
      (Inr True, ?s\<lparr>input := ?tex\<rparr>,
       [Process_filter_begin, Render Input_rt 160 90, Process_filter_end])"
    by (simp add: capture_ticked run_fails_def)
  have sp: "provider_process run_fails (?s\<lparr>input := ?tex\<rparr>) =
      (Inl (Runtime_error ''Run failed.''),
       ?s\<lparr>input := ?tex, nvidia_fx := Some (loaded_fx\<lparr>fx_input := Some ?tex\<rparr>)\<rparr>,
       [Gs_copy_texture, NvCVImage_Transfer Input Source, NvVFX_Run,
        Log Log_error Vfx_background_removal ''Failed to process due to error: %s''])"
    by (simp add: run_defs Let_def)
  have thrown: "video_render run_fails host_160x90 ?s =
      (Inr (), ?s\<lparr>input := ?tex, nvidia_fx := Some (loaded_fx\<lparr>fx_input := Some ?tex\<rparr>)\<rparr>,
       [Process_filter_begin, Render Input_rt 160 90, Process_filter_end,
        Gs_copy_texture, NvCVImage_Transfer Input Source, NvVFX_Run,
        Log Log_error Vfx_background_removal ''Failed to process due to error: %s'',
        Skip_video_filter])"
    using no_result_skips_frame [OF s(1) host s(2) s(3) sc sp] by simp
  have bhost: "render_target host_1280x720 \<noteq> None" "base_width host_1280x720 \<noteq> 0"
    "base_height host_1280x720 \<noteq> 0"
    by (simp_all add: render_target_def host_1280x720_def)
  have b: "provider_ready ?b" "dirty ?b" "listed (provider ?b)"
    by (simp_all add: video_tick_def nvidia_size_def size_fx_def loaded_instance_def
        new_instance_def host_1280x720_def listed_def Let_def)
  have silent: "video_render create_fails host_1280x720 ?b =
      (Inr (), ?b\<lparr>input := ?big\<rparr>,
       [Process_filter_begin, Render Input_rt 1280 720, Process_filter_end,
        Log Log_debug Cv_texture ''Resizing object...'',
        NvCVImage_UnmapResource Input, NvCVImage_Dealloc Input,
        Gs_texture_create Input 1280 720 GS_RGBA_UNORM,
        Skip_video_filter])"
    using no_result_skips_frame [OF b(1) bhost b(2) b(3) capture_ticked_1280x720
        provider_process_create_fails]
    by simp
  have u: "provider_ready ?u" "dirty ?u" "listed (provider ?u)"
    by (simp_all add: run_defs Let_def)
  have uc: "capture all_ok host_160x90 ?u =
      (Inr True, ?u\<lparr>input := ?tex\<rparr>,
       [Process_filter_begin, Render Input_rt 160 90, Process_filter_end])"
    by (simp add: run_defs Let_def)
  have up: "provider_process all_ok (?u\<lparr>input := ?tex\<rparr>) =
      (Inr (), ?u\<lparr>input := ?tex, mask_tex := None\<rparr>, [])"
    by (simp add: run_defs Let_def)
  have none: "video_render all_ok host_160x90 ?u =
      (Inr (), ?u\<lparr>input := ?tex, mask_tex := None\<rparr>,
       [Process_filter_begin, Render Input_rt 160 90, Process_filter_end,
        Log Log_error Filter_background_removal ''Provider '%s' did not return a result.'',
        Skip_video_filter])"
    using no_result_skips_frame [OF u(1) host u(2) u(3) uc up] by simp
  from thrown silent none show ?thesis by simp
qed


text \<open>
  A constructor whose \<^verbatim>\<open>load()\<close> is refused: the body throws, the five buffers and
  the effect are released in eight calls, and the exception of the load reaches the
  caller.
\<close>

lemma new_background_removal_load_fails:
  "fst (new_background_removal load_fails) = Inl (Runtime_error ''Load failed.'')
   \<and> snd (snd (new_background_removal load_fails)) =
      [NvVFX_CreateEffect, NvVFX_SetCudaStream, NvVFX_SetString,
       Image_create Tmp 160 90,
       Gs_texture_create Input 160 90 GS_RGBA_UNORM,
       NvCVImage_InitFromD3D11Texture Input, NvCVImage_MapResource Input,
       Image_create Source 160 90, NvVFX_SetImage INPUT_IMAGE_0 Source, NvVFX_SetU32,
       Image_create Destination 160 90,
       Gs_texture_create Output 160 90 GS_A8,
       NvCVImage_InitFromD3D11Texture Output, NvCVImage_MapResource Output,
       NvVFX_SetImage OUTPUT_IMAGE_0 Destination,
       NvVFX_SetCudaStream, NvVFX_Load,
       Log Log_error Vfx_background_removal ''Failed to initialize effect due to error: %s'',
       Image_destroy Tmp,
       NvCVImage_UnmapResource Output, NvCVImage_Dealloc Output,
       Image_destroy Destination, Image_destroy Source,
       NvCVImage_UnmapResource Input, NvCVImage_Dealloc Input,
       NvVFX_DestroyEffect]"
  by (simp add: new_background_removal_def construct_background_removal_def
      unwind_background_removal_def texture_delete_def noexcept_p_def texture_free_def
      resize_def resize_tmp_def resize_input_def
      resize_output_def input_size_changed_def output_size_changed_def resize_or_create_def
      texture_new_def gs_texture_new_def texture_alloc_def image_new_def load_def nvcall_def
      load_fails_def prog_defs)

lemma task_loads_provider:
  "fst (snd (task_switch_provider all_ok \<lparr>spd_provider = INVALID\<rparr>
      (new_instance\<lparr>provider := NVIDIA_GREEN_SCREEN\<rparr>)))
   = new_instance\<lparr>provider := NVIDIA_GREEN_SCREEN, provider_ready := True,
                   nvidia_fx := Some loaded_fx\<rparr>"
proof -
  obtain t where "new_background_removal all_ok = (Inr (), loaded_fx, t)"
    using new_background_removal_all_ok by (metis prod.collapse)
  then show ?thesis
    by (simp add: task_switch_provider_eq task_unload_def task_load_def nvidia_load_def
        new_instance_def listed_def return_p_def)
qed

lemma task_fails_to_load:
  "provider_ready (fst (snd (task_switch_provider load_fails \<lparr>spd_provider = INVALID\<rparr>
      (new_instance\<lparr>provider := NVIDIA_GREEN_SCREEN\<rparr>)))) = False
   \<and> Log Log_error Filter_background_removal
        ''Instance '%s' failed switching provider with error: %s''
      \<in> set (snd (snd (task_switch_provider load_fails \<lparr>spd_provider = INVALID\<rparr>
            (new_instance\<lparr>provider := NVIDIA_GREEN_SCREEN\<rparr>))))"
proof -
  obtain a t where "new_background_removal load_fails = (Inl (Runtime_error ''Load failed.''), a, t)"
    using new_background_removal_load_fails by (metis prod.collapse)
  then show ?thesis
    by (simp add: task_switch_provider_eq task_unload_def task_load_def nvidia_load_def
        new_instance_def return_p_def)
qed


lemma task_switch_provider_frame:
  assumes "task_switch_provider ok spd s = (r, s1, t)"
  shows "dirty s1 = dirty s \<and> provider s1 = provider s \<and> masked s1 = masked s
    \<and> out_size s1 = out_size s \<and> provider_task s1 = provider_task s"
proof -
  obtain ru s2 t2 where u: "task_unload ok spd (s\<lparr>provider_ready := False\<rparr>) = (ru, s2, t2)"
    by (cases "task_unload ok spd (s\<lparr>provider_ready := False\<rparr>)")
  from task_unload_frame [OF u]
  have "s2\<lparr>nvidia_fx := nvidia_fx (s\<lparr>provider_ready := False\<rparr>)\<rparr> = s\<lparr>provider_ready := False\<rparr>"
    by simp
  from frame_fields [OF this]
  have f2: "dirty s2 = dirty s" "provider s2 = provider s" "masked s2 = masked s"
    "out_size s2 = out_size s" "provider_task s2 = provider_task s" by simp_all
  obtain rl s3 t3 where l: "task_load ok s2 = (rl, s3, t3)"
    by (cases "task_load ok s2")
  from task_load_frame [OF l] have "s3\<lparr>nvidia_fx := nvidia_fx s2\<rparr> = s2" by simp
  from frame_fields [OF this] f2
  have f3: "dirty s3 = dirty s" "provider s3 = provider s" "masked s3 = masked s"
    "out_size s3 = out_size s" "provider_task s3 = provider_task s" by simp_all
  have "s1 = s2 \<or> s1 = s3 \<or> s1 = s3\<lparr>provider_ready := True\<rparr>"
    using assms u l
    by (cases ru; cases rl) (auto simp add: task_switch_provider_eq split: if_splits)
  with f2 f3 show ?thesis by auto
qed

text \<open>
  The active provider is an enumerator in every state that the instance reaches: the
  constructor starts with one, and no operation replaces it by another value.
\<close>

lemma video_render_frame:
  assumes "video_render ok h s = (r, s1, t)"
  shows "provider s1 = provider s \<and> provider_ready s1 = provider_ready s"
proof (cases "\<not> provider_ready s \<or> render_target h = None \<or> base_width h = 0
      \<or> base_height h = 0")
  case True
  with assms have "s1 = s" by (auto simp add: video_render_def emit_def)
  then show ?thesis by simp
next
  case False
  then have ok: "provider_ready s" "render_target h \<noteq> None" "base_width h \<noteq> 0"
    "base_height h \<noteq> 0" by simp_all
  show ?thesis
  proof (cases "dirty s")
    case False
    with ok assms have "s1 = s" by (auto simp add: video_render_eq)
    then show ?thesis by simp
  next
    case True
    obtain rr sr tr where rc: "recompute ok h s = (rr, sr, tr)"
      by (cases "recompute ok h s")
    with ok True assms have s1: "s1 = sr"
      by (cases rr) (auto simp add: video_render_eq split: bool.splits)
    obtain rc sc tc where c: "capture ok h s = (rc, sc, tc)"
      by (cases "capture ok h s")
    from capture_frame [OF c] have cf: "provider sc = provider s"
      "provider_ready sc = provider_ready s" by simp_all
    obtain rp sp tp where p: "provider_process ok sc = (rp, sp, tp)"
      by (cases "provider_process ok sc")
    from provider_process_frame [OF p] have pf: "provider sp = provider sc"
      "provider_ready sp = provider_ready sc" by simp_all
    from rc c p cf pf have "provider sr = provider s \<and> provider_ready sr = provider_ready s"
      by (auto simp add: recompute_eq mask_pass_eq
          split: sum.splits bool.splits option.splits if_splits)
    with s1 show ?thesis by simp
  qed
qed

lemma provider_stays_listed:
  "listed (provider new_instance)"
  "listed (provider s) \<Longrightarrow> listed (provider (fst (snd (switch_provider p s))))"
  "listed (provider s) \<Longrightarrow> listed (provider (fst (snd (update fac p s))))"
  "listed (provider s) \<Longrightarrow> listed (provider (fst (snd (task_switch_provider ok spd s))))"
  "listed (provider s) \<Longrightarrow> listed (provider (video_tick h s))"
  "listed (provider s) \<Longrightarrow> listed (provider (fst (snd (video_render ok h s))))"
proof -
  show "listed (provider new_instance)"
    by (simp add: new_instance_def listed_def)
  show sw: "listed (provider (fst (snd (switch_provider p' s))))" if "listed (provider s)" for p'
    using that
    by (simp add: switch_provider_def log_cstring_eq prog_defs split: option.splits)
  show "listed (provider (fst (snd (update fac p s))))" if "listed (provider s)"
    using that sw by (simp add: update_def Let_def return_p_def)
  show "listed (provider (fst (snd (task_switch_provider ok spd s))))" if "listed (provider s)"
    using that task_switch_provider_frame
      [of ok spd s "fst (task_switch_provider ok spd s)"
        "fst (snd (task_switch_provider ok spd s))" "snd (snd (task_switch_provider ok spd s))"]
    by simp
  have "provider (video_tick h s) = provider s"
    by (simp add: video_tick_def nvidia_size_def size_fx_def Let_def split: option.splits)
  then show "listed (provider (video_tick h s))" if "listed (provider s)"
    using that by simp
  show "listed (provider (fst (snd (video_render ok h s))))" if "listed (provider s)"
    using that video_render_frame
      [of ok h s "fst (video_render ok h s)"
        "fst (snd (video_render ok h s))" "snd (snd (video_render ok h s))"]
    by simp
qed








subsection \<open>The temporary buffer comes first\<close>

lemma resize_or_create_preserves:
  assumes "preserves (\<lambda>_. ()) P rs" and "preserves f P mk" and "\<And>v s. f (wr v s) = f s"
  shows "preserves f P (resize_or_create rd wr rs mk)"
proof -
  have "f (fst (snd (resize_or_create rd wr rs mk s))) = f s
      \<and> list_all P (snd (snd (resize_or_create rd wr rs mk s)))" for s
  proof (cases "rd s")
    case None
    obtain r s1 t where mk: "mk s = (r, s1, t)" by (cases "mk s")
    from preservesD [OF assms(2) mk] have "f s1 = f s" "list_all P t" by simp_all
    with None mk assms(3) show ?thesis by (cases r) (simp_all add: resize_or_create_def)
  next
    case (Some b)
    obtain r b1 t where rs: "rs b = (r, b1, t)" by (cases "rs b")
    from preservesD [OF assms(1) rs] have "list_all P t" by simp
    with Some rs assms(3) show ?thesis by (simp add: resize_or_create_def)
  qed
  then show ?thesis by (simp add: preserves_def)
qed

lemma resize_input_keeps_tmp: "preserves tmp (\<lambda>e. \<not> filter_event e) (resize_input ok w h)"
  unfolding resize_input_def
  by (intro preserves_if preserves_seq_all preserves_return)
    (simp add: resize_or_create_preserves texture_resize_accel texture_new_accel
      image_resize_accel image_new_accel preserves_nvcall preserves_modify)

lemma resize_output_keeps_tmp: "preserves tmp (\<lambda>e. \<not> filter_event e) (resize_output ok w h)"
  unfolding resize_output_def
  by (intro preserves_if preserves_seq_all preserves_return)
    (simp add: resize_or_create_preserves texture_resize_accel texture_new_accel
      image_resize_accel image_new_accel preserves_nvcall preserves_modify)

lemma resize_tmp_outcome:
  assumes "resize_tmp ok w h a = (r, a1, t)"
  shows "(case r of Inl e \<Rightarrow> a1 = a | Inr u \<Rightarrow> tmp a1 \<noteq> None)"
  using assms
  by (cases "tmp a = None"; cases "ok (Image_create Tmp w h)")
    (auto simp add: resize_tmp_def image_new_def prog_defs)

lemma resize_keeps_tmp_first:
  assumes "tmp_first a"
  shows "tmp_first (fst (snd (resize ok w h a)))"
proof -
  obtain r a1 t1 where t: "resize_tmp ok w h a = (r, a1, t1)"
    by (cases "resize_tmp ok w h a")
  let ?rest = "seq_all [resize_input ok w h, resize_output ok w h]"
  have rest: "preserves tmp (\<lambda>e. \<not> filter_event e) ?rest"
    by (intro preserves_seq_all) (simp add: resize_input_keeps_tmp resize_output_keeps_tmp)
  have split: "resize ok w h = then_p (resize_tmp ok w h) ?rest"
    by (simp add: resize_def)
  show ?thesis
  proof (cases r)
    case (Inl e)
    with resize_tmp_outcome [OF t] have "a1 = a" by simp
    with t Inl assms show ?thesis by (simp add: split then_p_def bind_p_def)
  next
    case (Inr u)
    with resize_tmp_outcome [OF t] have a1: "tmp a1 \<noteq> None" by simp
    obtain r2 a2 t2 where r2: "?rest a1 = (r2, a2, t2)" by (cases "?rest a1")
    from preservesD [OF rest r2] a1 have "tmp a2 \<noteq> None" by simp
    moreover from t Inr r2 have "fst (snd (resize ok w h a)) = a2"
      by (simp add: split then_p_def bind_p_def)
    ultimately show ?thesis by (auto simp add: tmp_first_def)
  qed
qed

lemma then_p_state:
  "fst (snd (then_p m n s)) =
     (case m s of (Inl e, s1, t) \<Rightarrow> s1 | (Inr x, s1, t) \<Rightarrow> fst (snd (n s1)))"
  by (simp add: then_p_def bind_p_def split: prod.splits sum.splits)

lemma nvcall_then_state:
  "fst (snd (then_p (nvcall ok org c msg what) n s)) = (if ok c then fst (snd (n s)) else s)"
  by (simp add: then_p_def bind_p_def nvcall_def split: prod.splits)

lemma load_keeps_buffers:
  "preserves (\<lambda>a. (tmp a, fx_input a = None, source a, destination a, fx_output a = None))
     (\<lambda>e. \<not> filter_event e) (load ok)"
  unfolding load_def
  by (intro preserves_seq_all) (simp add: preserves_nvcall preserves_modify)


lemma process_split:
  "process ok inp =
     then_p (then_p (resize ok (tex_width inp) (tex_height inp)) (process_steps ok inp))
       (\<lambda>a. (Inr (fx_output a), a, []))"
  by (simp add: process_def process_steps_def)

lemma process_steps_keep_buffers:
  "preserves (\<lambda>a. (tmp a, fx_input a = None, source a, destination a, fx_output a = None))
     (\<lambda>e. \<not> filter_event e) (process_steps ok inp)"
proof -
  have "preserves (\<lambda>a. (tmp a, fx_input a = None, source a, destination a, fx_output a = None))
      (\<lambda>e. \<not> filter_event e) (\<lambda>a. if fx_dirty a then load ok a else return_p () a)"
    by (intro preserves_if load_keeps_buffers preserves_return)
  then show ?thesis
    unfolding process_steps_def
    by (intro preserves_seq_all)
      (simp add: preserves_emit preserves_modify preserves_nvcall)
qed


lemma keep_buffers_tmp_first:
  assumes "preserves (\<lambda>a. (tmp a, fx_input a = None, source a, destination a, fx_output a = None)) P m"
    and "tmp_first b"
  shows "tmp_first (fst (snd (m b)))"
proof -
  obtain r b1 t where m: "m b = (r, b1, t)" by (cases "m b")
  from preservesD [OF assms(1) m]
  have "tmp b1 = tmp b" "(fx_input b1 = None) = (fx_input b = None)" "source b1 = source b"
    "destination b1 = destination b" "(fx_output b1 = None) = (fx_output b = None)"
    by simp_all
  with assms(2) m show ?thesis by (simp add: tmp_first_def)
qed

lemma process_keeps_tmp_first:
  assumes "tmp_first a"
  shows "tmp_first (fst (snd (process ok inp a)))"
proof -
  obtain r a1 t1 where rs: "resize ok (tex_width inp) (tex_height inp) a = (r, a1, t1)"
    by (cases "resize ok (tex_width inp) (tex_height inp) a")
  with resize_keeps_tmp_first [OF assms, of ok "tex_width inp" "tex_height inp"]
  have a1: "tmp_first a1" by simp
  note a2 = keep_buffers_tmp_first [OF process_steps_keep_buffers a1, of ok inp]
  show ?thesis
  proof (cases r)
    case (Inl e)
    with rs have "fst (snd (process ok inp a)) = a1"
      by (simp add: process_split then_p_def bind_p_def)
    with a1 show ?thesis by simp
  next
    case (Inr u)
    with rs have "fst (snd (process ok inp a)) = fst (snd (process_steps ok inp a1))"
      by (simp add: process_split then_p_def bind_p_def split: prod.splits sum.splits)
    with a2 show ?thesis by simp
  qed
qed


lemma new_background_removal_state:
  "fst (snd (construct_background_removal ok)) =
     (if ok NvVFX_CreateEffect \<and> ok NvVFX_SetCudaStream \<and> ok NvVFX_SetString
      then fst (snd (then_p (resize ok 160 90) (then_p (load ok) (return_p ()))
             \<lparr>tmp = None, fx_input = None, source = None, destination = None,
              fx_output = None, fx_dirty = True\<rparr>))
      else \<lparr>tmp = None, fx_input = None, source = None, destination = None,
            fx_output = None, fx_dirty = True\<rparr>)"
  by (simp add: construct_background_removal_def nvcall_then_state)

lemma new_background_removal_tmp_first:
  "tmp_first (fst (snd (new_background_removal ok)))"
proof -
  let ?init = "\<lparr>tmp = None, fx_input = None, source = None, destination = None,
    fx_output = None, fx_dirty = True\<rparr>"
  have init: "tmp_first ?init" by (simp add: tmp_first_def)
  obtain r a1 t1 where rs: "resize ok 160 90 ?init = (r, a1, t1)"
    by (cases "resize ok 160 90 ?init")
  with resize_keeps_tmp_first [OF init, of ok 160 90] have a1: "tmp_first a1" by simp
  have "preserves (\<lambda>a. (tmp a, fx_input a = None, source a, destination a, fx_output a = None))
      (\<lambda>e. \<not> filter_event e) (then_p (load ok) (return_p ()))"
    by (intro preserves_then load_keeps_buffers preserves_return)
  note a2 = keep_buffers_tmp_first [OF this a1]
  have "tmp_first (fst (snd (then_p (resize ok 160 90) (then_p (load ok) (return_p ())) ?init)))"
    using rs a1 a2 by (cases r) (simp_all add: then_p_state)
  with init show ?thesis
    by (simp add: new_background_removal_state_construct new_background_removal_state)
qed

end
